theory Spec2Isabelle
  imports Complex_Main "HOL-Library.Sublist"
begin

section \<open>Python values, exceptions and the builtins the parser calls\<close>

text \<open>
  The node description parser (\<^verbatim>\<open>rfb_utils/node_desc_base/node_desc_param.py\<close> and
  \<^verbatim>\<open>node_desc.py\<close>) is dynamically typed: attribute values are numbers, strings,
  tuples, lists, ordered dictionaries, and whatever \<^verbatim>\<open>eval\<close> returns. Values are
  modelled by one datatype. A finite float is the rational number it denotes (the code only
  compares floats and never computes with them); strings are sequences of ASCII characters;
  a dictionary is an association list in insertion order; \<open>PyType\<close> is a class object
  such as \<^verbatim>\<open>int\<close>; \<open>PyObject\<close> stands for any other object (a function, a module).
\<close>

datatype pyvalue =
    PyNone
  | PyBool bool
  | PyInt int
  | PyFloat rat
  | PyStr string
  | PyTuple "pyvalue list"
  | PyList "pyvalue list"
  | PyDict "(pyvalue \<times> pyvalue) list"
  | PyType string
  | PyObject nat

text \<open>
  Every \<^verbatim>\<open>raise\<close> of the source and every exception of a builtin is a value.
  \<open>NodeDescError\<close> carries the text \<^verbatim>\<open>str(err)\<close> gives, \<open>OtherException\<close> is any
  exception class the code does not distinguish (\<^verbatim>\<open>SyntaxError\<close>, \<^verbatim>\<open>NameError\<close>,
  \<^verbatim>\<open>SystemExit\<close>, ...).
\<close>

datatype pyexc =
    ValueError
  | TypeError
  | KeyError
  | IndexError
  | AttributeError
  | NodeDescError string
  | NodeDescIgnore string
  | OtherException
  | Unmodelled

text \<open>
  The builtins \<^verbatim>\<open>eval\<close>, \<^verbatim>\<open>int\<close> and \<^verbatim>\<open>float\<close> are not code of the repository:
  they are parameters of the model, each returning a value or the exception it raises.
  An evaluation that does not come back (an endless comprehension, a call that ends the
  process) has no outcome in this type: the model is about evaluations that complete.
\<close>

record builtins =
  py_eval :: "string \<Rightarrow> pyexc + pyvalue"
  py_int :: "pyvalue \<Rightarrow> pyexc + int"
  py_float :: "string \<Rightarrow> pyexc + pyvalue"

text \<open>Truth value of an object, \<^verbatim>\<open>bool(val)\<close>: it raises for none of these values.\<close>

fun py_truth :: "pyvalue \<Rightarrow> bool" where
  "py_truth PyNone = False"
| "py_truth (PyBool b) = b"
| "py_truth (PyInt i) = (i \<noteq> 0)"
| "py_truth (PyFloat r) = (r \<noteq> 0)"
| "py_truth (PyStr s) = (s \<noteq> [])"
| "py_truth (PyTuple xs) = (xs \<noteq> [])"
| "py_truth (PyList xs) = (xs \<noteq> [])"
| "py_truth (PyDict kvs) = (kvs \<noteq> [])"
| "py_truth (PyType n) = True"
| "py_truth (PyObject n) = True"

definition py_bool :: "pyvalue \<Rightarrow> pyexc + bool" where
  "py_bool val = Inr (py_truth val)"

text \<open>
  Python's \<^verbatim>\<open>==\<close> identifies \<^verbatim>\<open>True\<close>, \<^verbatim>\<open>1\<close> and \<^verbatim>\<open>1.0\<close>, also inside tuples
  and lists: two values are equal when their normal forms are.
\<close>

fun py_norm :: "pyvalue \<Rightarrow> pyvalue" where
  "py_norm (PyBool b) = PyFloat (if b then 1 else 0)"
| "py_norm (PyInt i) = PyFloat (of_int i)"
| "py_norm (PyTuple xs) = PyTuple (map py_norm xs)"
| "py_norm (PyList xs) = PyList (map py_norm xs)"
| "py_norm (PyDict kvs) = PyDict (map (\<lambda>(k, v). (py_norm k, py_norm v)) kvs)"
| "py_norm v = v"

definition py_eq :: "pyvalue \<Rightarrow> pyvalue \<Rightarrow> bool" where
  "py_eq a b = (py_norm a = py_norm b)"

definition py_in :: "pyvalue \<Rightarrow> pyvalue list \<Rightarrow> bool" where
  "py_in x xs = list_ex (py_eq x) xs"

fun hashable :: "pyvalue \<Rightarrow> bool" where
  "hashable (PyTuple xs) = list_all hashable xs"
| "hashable (PyList xs) = False"
| "hashable (PyDict kvs) = False"
| "hashable v = True"

section \<open>Value coercion utilities\<close>

subsection \<open>\<^verbatim>\<open>to_bool\<close>\<close>

definition capitalize :: "string \<Rightarrow> string" where
  "capitalize s = (case s of [] \<Rightarrow> [] | c # cs \<Rightarrow>
     (if (97::nat) \<le> of_char c \<and> of_char c \<le> (122::nat)
      then char_of (of_char c - (32::nat)) else c)
       # map (\<lambda>d. if (65::nat) \<le> of_char d \<and> of_char d \<le> (90::nat)
                  then char_of (of_char d + (32::nat)) else d) cs)"

text \<open>
  \<^verbatim>\<open>
  def to_bool(val):
      try:
          return bool(int(val))
      except ValueError:
          try:
              return bool(val)
          except ValueError:
              if val in ('true', 'false'):
                  return bool(val.capitalize())
      raise ValueError('Failed to convert: %r' % val)
  \<close>
  An exception of \<^verbatim>\<open>int\<close> other than \<^verbatim>\<open>ValueError\<close> (a \<^verbatim>\<open>TypeError\<close> for
  \<^verbatim>\<open>None\<close>) propagates.
\<close>

definition to_bool :: "builtins \<Rightarrow> pyvalue \<Rightarrow> pyexc + bool" where
  "to_bool B val =
     (case py_int B val of
        Inr n \<Rightarrow> Inr (n \<noteq> 0)
      | Inl ValueError \<Rightarrow>
          (case py_bool val of
             Inr b \<Rightarrow> Inr b
           | Inl ValueError \<Rightarrow>
               (case val of
                  PyStr s \<Rightarrow>
                    (if s = ''true'' \<or> s = ''false''
                     then Inr (py_truth (PyStr (capitalize s)))
                     else Inl ValueError)
                | _ \<Rightarrow> Inl ValueError)
           | Inl e \<Rightarrow> Inl e)
      | Inl e \<Rightarrow> Inl e)"

subsection \<open>\<^verbatim>\<open>safe_value_eval\<close>\<close>

text \<open>
  \<^verbatim>\<open>
  def safe_value_eval(raw_val):
      val = raw_val
      try:
          val = eval(raw_val)
      except BaseException:
          val = raw_val
      else:
          if isinstance(val, type):
              val = raw_val
      return val
  \<close>
\<close>

fun isinstance_type :: "pyvalue \<Rightarrow> bool" where
  "isinstance_type (PyType n) = True"
| "isinstance_type v = False"

definition safe_value_eval :: "builtins \<Rightarrow> string \<Rightarrow> pyexc + pyvalue" where
  "safe_value_eval B raw_val =
     (case py_eval B raw_val of
        Inl e \<Rightarrow> Inr (PyStr raw_val)
      | Inr val \<Rightarrow> if isinstance_type val then Inr (PyStr raw_val) else Inr val)"

subsection \<open>\<^verbatim>\<open>validate_type\<close> and the text of its error\<close>

definition VALID_TYPES :: "string list" where
  "VALID_TYPES = [''int'', ''int2'', ''float'', ''float2'', ''color'', ''point'', ''vector'',
     ''normal'', ''matrix'', ''string'', ''struct'', ''lightfilter'',
     ''message'', ''displayfilter'', ''samplefilter'', ''bxdf'']"

definition FLOAT3 :: "string list" where
  "FLOAT3 = [''color'', ''point'', ''vector'', ''normal'']"

definition FLOATX :: "string list" where
  "FLOATX = [''color'', ''point'', ''vector'', ''normal'', ''matrix'']"

text \<open>
  The format \<^verbatim>\<open>%r\<close> prints \<^verbatim>\<open>repr\<close> of its argument. For a string that is the text
  between quotes: single quotes, unless the string has a single quote and no double
  quote; the quote character and the backslash are escaped with a backslash, tab, newline
  and return are written \<^verbatim>\<open>\t\<close>, \<^verbatim>\<open>\n\<close>, \<^verbatim>\<open>\r\<close>, and any other character outside
  the printable ASCII range as \<^verbatim>\<open>\xhh\<close>.
\<close>

definition hexdigit :: "nat \<Rightarrow> char" where
  "hexdigit n = (if n < 10 then char_of (48 + n) else char_of (87 + n))"

definition repr_quote :: "string \<Rightarrow> char" where
  "repr_quote s = (if CHR 0x27 \<in> set s \<and> CHR 0x22 \<notin> set s then CHR 0x22 else CHR 0x27)"

definition repr_char :: "char \<Rightarrow> char \<Rightarrow> string" where
  "repr_char q c =
     (if c = q \<or> c = CHR 0x5C then [CHR 0x5C, c]
      else if c = CHR 0x09 then [CHR 0x5C, CHR ''t'']
      else if c = CHR 0x0A then [CHR 0x5C, CHR ''n'']
      else if c = CHR 0x0D then [CHR 0x5C, CHR ''r'']
      else if of_char c < (0x20::nat) \<or> (0x7F::nat) \<le> of_char c
        then [CHR 0x5C, CHR ''x'', hexdigit (of_char c div 16), hexdigit (of_char c mod 16)]
      else [c])"

definition repr_str :: "string \<Rightarrow> string" where
  "repr_str s = [repr_quote s] @ concat (map (repr_char (repr_quote s)) s) @ [repr_quote s]"

text \<open>The type handed to \<^verbatim>\<open>validate_type\<close> is a string or \<^verbatim>\<open>None\<close>.\<close>

definition repr_opt :: "string option \<Rightarrow> string" where
  "repr_opt t = (case t of None \<Rightarrow> ''None'' | Some s \<Rightarrow> repr_str s)"

text \<open>
  \<^verbatim>\<open>
  class NodeDescError(Exception):
      def __init__(self, value):
          self.value = 'NodeDesc Error: %s' % value
      def __str__(self):
          return str(self.value)

  def validate_type(pname, ptype):
      if ptype in VALID_TYPES:
          return ptype
      raise NodeDescError('param %r has invalid type: %r' % (pname, ptype))
  \<close>
\<close>

definition mkNodeDescError :: "string \<Rightarrow> pyexc" where
  "mkNodeDescError val = NodeDescError (''NodeDesc Error: '' @ val)"

definition validate_type :: "string \<Rightarrow> string option \<Rightarrow> pyexc + string" where
  "validate_type pname ptype =
     (case ptype of
        Some t \<Rightarrow>
          (if t \<in> set VALID_TYPES then Inr t
           else Inl (mkNodeDescError
                  (''param '' @ repr_str pname @ '' has invalid type: '' @ repr_opt ptype)))
      | None \<Rightarrow> Inl (mkNodeDescError
                  (''param '' @ repr_str pname @ '' has invalid type: '' @ repr_opt ptype)))"

text \<open>
  A string that \<^verbatim>\<open>repr\<close> prints as it is between the quotes: printable ASCII, no
  backslash, and not both kinds of quote.
\<close>

definition repr_plain :: "string \<Rightarrow> bool" where
  "repr_plain s =
     (list_all (\<lambda>c. c \<noteq> CHR 0x5C \<and> (0x20::nat) \<le> of_char c \<and> of_char c < (0x7F::nat)) s
      \<and> \<not> (CHR 0x27 \<in> set s \<and> CHR 0x22 \<in> set s))"

section \<open>Regular expressions of the parser\<close>

text \<open>
  The two patterns of the module, \<^verbatim>\<open>CFLOAT_REGEXP\<close> and \<^verbatim>\<open>RE_VISOP\<close>, use character
  classes, alternation, sequence and repetition only. \<^verbatim>\<open>re.match\<close> succeeds when some
  prefix of the string is in the language of the pattern; the matcher below decides that
  with derivatives. \<open>RSet cs\<close> is a character of \<open>cs\<close>, \<open>RNot cs\<close> a character not in
  \<open>cs\<close>. The class \<^verbatim>\<open>\d\<close> is the ASCII digits.
\<close>

datatype regex =
    RNone
  | REps
  | RSet "char list"
  | RNot "char list"
  | RAlt regex regex
  | RCat regex regex
  | RStar regex

definition ropt :: "regex \<Rightarrow> regex" where
  "ropt r = RAlt r REps"

definition rplus :: "regex \<Rightarrow> regex" where
  "rplus r = RCat r (RStar r)"

fun rstr :: "string \<Rightarrow> regex" where
  "rstr [] = REps"
| "rstr (c # cs) = RCat (RSet [c]) (rstr cs)"

fun nullable :: "regex \<Rightarrow> bool" where
  "nullable RNone = False"
| "nullable REps = True"
| "nullable (RSet cs) = False"
| "nullable (RNot cs) = False"
| "nullable (RAlt r s) = (nullable r \<or> nullable s)"
| "nullable (RCat r s) = (nullable r \<and> nullable s)"
| "nullable (RStar r) = True"

fun deriv :: "char \<Rightarrow> regex \<Rightarrow> regex" where
  "deriv c RNone = RNone"
| "deriv c REps = RNone"
| "deriv c (RSet cs) = (if c \<in> set cs then REps else RNone)"
| "deriv c (RNot cs) = (if c \<in> set cs then RNone else REps)"
| "deriv c (RAlt r s) = RAlt (deriv c r) (deriv c s)"
| "deriv c (RCat r s) =
     (if nullable r then RAlt (RCat (deriv c r) s) (deriv c s) else RCat (deriv c r) s)"
| "deriv c (RStar r) = RCat (deriv c r) (RStar r)"

text \<open>\<^verbatim>\<open>re.match(r, s)\<close>: a prefix of \<open>s\<close> matches \<open>r\<close>.\<close>

fun re_match :: "regex \<Rightarrow> string \<Rightarrow> bool" where
  "re_match r [] = nullable r"
| "re_match r (c # cs) = (nullable r \<or> re_match (deriv c r) cs)"

text \<open>The whole of \<open>s\<close> matches \<open>r\<close>.\<close>

fun re_fullmatch :: "regex \<Rightarrow> string \<Rightarrow> bool" where
  "re_fullmatch r [] = nullable r"
| "re_fullmatch r (c # cs) = re_fullmatch (deriv c r) cs"

text \<open>The language of a pattern, the reference the matcher is checked against.\<close>

inductive_set star :: "string set \<Rightarrow> string set" for A :: "string set" where
  star_empty: "[] \<in> star A"
| star_step: "u \<in> A \<Longrightarrow> v \<in> star A \<Longrightarrow> u @ v \<in> star A"

fun lang :: "regex \<Rightarrow> string set" where
  "lang RNone = {}"
| "lang REps = {[]}"
| "lang (RSet cs) = {[c] | c. c \<in> set cs}"
| "lang (RNot cs) = {[c] | c. c \<notin> set cs}"
| "lang (RAlt r s) = lang r \<union> lang s"
| "lang (RCat r s) = {u @ v | u v. u \<in> lang r \<and> v \<in> lang s}"
| "lang (RStar r) = star (lang r)"

text \<open>The characters the strings of a pattern are made of.\<close>

fun rchars :: "regex \<Rightarrow> char set" where
  "rchars RNone = {}"
| "rchars REps = {}"
| "rchars (RSet cs) = set cs"
| "rchars (RNot cs) = UNIV"
| "rchars (RAlt r s) = rchars r \<union> rchars s"
| "rchars (RCat r s) = rchars r \<union> rchars s"
| "rchars (RStar r) = rchars r"

text \<open>
  \<^verbatim>\<open>CFLOAT_REGEXP = re.compile(r'[+-]?(\d+(\.\d*)?|\.\d+)([eE][+-]?\d+)?f').match\<close>:
  a number, then the letter \<^verbatim>\<open>f\<close>.
\<close>

definition rdigit :: regex where
  "rdigit = RSet ''0123456789''"

definition CFLOAT_NUMBER :: regex where
  "CFLOAT_NUMBER =
     RCat (ropt (RSet ''+-''))
       (RCat (RAlt (RCat (rplus rdigit) (ropt (RCat (RSet ''.'') (RStar rdigit))))
                   (RCat (RSet ''.'') (rplus rdigit)))
             (ropt (RCat (RSet ''eE'') (RCat (ropt (RSet ''+-'')) (rplus rdigit)))))"

definition CFLOAT_REGEXP :: regex where
  "CFLOAT_REGEXP = RCat CFLOAT_NUMBER (RSet ''f'')"

text \<open>
  \<^verbatim>\<open>
  def _handle_c_style_floats(self, val):
      if CFLOAT_REGEXP(str(val)):
          return val.replace('f', '')
      else:
          return val
  \<close>
\<close>

definition handle_c_style_floats :: "string \<Rightarrow> string" where
  "handle_c_style_floats val =
     (if re_match CFLOAT_REGEXP val then filter (\<lambda>c. c \<noteq> CHR ''f'') val else val)"

section \<open>Strings, objects and the XML document\<close>

text \<open>
  A call that may raise is sequenced with \<open>ebind\<close>: the first exception ends the
  computation, as it does in the source (no handler lies between the calls so joined).
  \<open>Unmodelled\<close> is not an exception of Python: it marks the few executions the model does
  not follow (formatting a value that is not a string, comparing an unknown object).
\<close>

definition ebind :: "'e + 'a \<Rightarrow> ('a \<Rightarrow> 'e + 'b) \<Rightarrow> 'e + 'b" where
  "ebind m f = (case m of Inl e \<Rightarrow> Inl e | Inr x \<Rightarrow> f x)"

fun emap :: "('a \<Rightarrow> 'e + 'b) \<Rightarrow> 'a list \<Rightarrow> 'e + 'b list" where
  "emap f [] = Inr []"
| "emap f (x # xs) = ebind (f x) (\<lambda>y. ebind (emap f xs) (\<lambda>ys. Inr (y # ys)))"

fun efold :: "('a \<Rightarrow> 's \<Rightarrow> 'e + 's) \<Rightarrow> 'a list \<Rightarrow> 's \<Rightarrow> 'e + 's" where
  "efold f [] s = Inr s"
| "efold f (x # xs) s = ebind (f x s) (efold f xs)"

subsection \<open>String methods\<close>

text \<open>The whitespace of \<^verbatim>\<open>str.split()\<close>, \<^verbatim>\<open>str.strip()\<close> and \<^verbatim>\<open>\s\<close>, within ASCII.\<close>

definition is_space :: "char \<Rightarrow> bool" where
  "is_space c = (of_char c \<in> {9, 10, 11, 12, 13, 28, 29, 30, 31, 32 :: nat})"

text \<open>\<^verbatim>\<open>s.split()\<close>: the maximal runs of characters that are not whitespace.\<close>

fun split_ws_aux :: "string \<Rightarrow> string \<Rightarrow> string list" where
  "split_ws_aux cur [] = (if cur = [] then [] else [rev cur])"
| "split_ws_aux cur (c # cs) =
     (if is_space c then (if cur = [] then [] else [rev cur]) @ split_ws_aux [] cs
      else split_ws_aux (c # cur) cs)"

definition split_ws :: "string \<Rightarrow> string list" where
  "split_ws s = split_ws_aux [] s"

text \<open>\<^verbatim>\<open>s.split(sep)\<close> for a separator of one character: at least one piece.\<close>

fun split_on :: "char \<Rightarrow> string \<Rightarrow> string list" where
  "split_on sep [] = [[]]"
| "split_on sep (c # cs) =
     (if c = sep then [] # split_on sep cs
      else (case split_on sep cs of p # ps \<Rightarrow> (c # p) # ps | [] \<Rightarrow> [[c]]))"

text \<open>\<^verbatim>\<open>s.rsplit(sep, 1)\<close>: cut at the last separator, or the string alone.\<close>

definition rsplit1 :: "char \<Rightarrow> string \<Rightarrow> string list" where
  "rsplit1 sep s =
     (if sep \<in> set s
      then [rev (tl (dropWhile (\<lambda>c. c \<noteq> sep) (rev s))), rev (takeWhile (\<lambda>c. c \<noteq> sep) (rev s))]
      else [s])"

text \<open>\<^verbatim>\<open>s.replace(c, t)\<close> for a single character \<open>c\<close>.\<close>

definition replace_char :: "char \<Rightarrow> string \<Rightarrow> string \<Rightarrow> string" where
  "replace_char c t s = concat (map (\<lambda>d. if d = c then t else [d]) s)"

definition strip :: "string \<Rightarrow> string" where
  "strip s = rev (dropWhile is_space (rev (dropWhile is_space s)))"

definition lower :: "string \<Rightarrow> string" where
  "lower s = map (\<lambda>d. if (65::nat) \<le> of_char d \<and> of_char d \<le> (90::nat)
                       then char_of (of_char d + (32::nat)) else d) s"

definition endswith :: "string \<Rightarrow> string \<Rightarrow> bool" where
  "endswith s t = (length t \<le> length s \<and> drop (length s - length t) s = t)"

text \<open>\<^verbatim>\<open>t in s\<close> for strings: \<open>t\<close> is a substring of \<open>s\<close>.\<close>

fun is_prefix :: "string \<Rightarrow> string \<Rightarrow> bool" where
  "is_prefix [] s = True"
| "is_prefix (c # cs) [] = False"
| "is_prefix (c # cs) (d # ds) = (c = d \<and> is_prefix cs ds)"

fun str_contains :: "string \<Rightarrow> string \<Rightarrow> bool" where
  "str_contains t [] = (t = [])"
| "str_contains t (c # cs) = (is_prefix t (c # cs) \<or> str_contains t cs)"

text \<open>
  \<^verbatim>\<open>re.sub(r'\n\s+', '<br>', s)\<close>: each newline that is followed by whitespace is
  replaced, with all the whitespace after it, by \<^verbatim>\<open><br>\<close>.
\<close>

fun sub_newlines_aux :: "bool \<Rightarrow> string \<Rightarrow> string" where
  "sub_newlines_aux skip [] = []"
| "sub_newlines_aux skip (c # cs) =
     (if skip \<and> is_space c then sub_newlines_aux True cs
      else if c = CHR 0x0A \<and> (case cs of d # _ \<Rightarrow> is_space d | [] \<Rightarrow> False)
        then ''<br>'' @ sub_newlines_aux True cs
      else c # sub_newlines_aux False cs)"

definition sub_newlines :: "string \<Rightarrow> string" where
  "sub_newlines s = sub_newlines_aux False s"

text \<open>
  \<^verbatim>\<open>RE_VISOP = re.compile(r'.+(Left|Right|Op|Path|Value)$')\<close>, used through
  \<^verbatim>\<open>re.match\<close>: the dot is any character but the newline, and \<^verbatim>\<open>$\<close> is the end of
  the string or a newline that ends it.
\<close>

definition RE_VISOP :: regex where
  "RE_VISOP =
     RCat (rplus (RNot [CHR 0x0A]))
       (RCat (RAlt (rstr ''Left'') (RAlt (rstr ''Right'') (RAlt (rstr ''Op'')
               (RAlt (rstr ''Path'') (rstr ''Value'')))))
             (ropt (RSet [CHR 0x0A])))"

definition match_RE_VISOP :: "string \<Rightarrow> bool" where
  "match_RE_VISOP pname = re_fullmatch RE_VISOP pname"

subsection \<open>Objects and dictionaries\<close>

text \<open>
  An instance is its attribute dictionary, in the order the attributes were first set.
  \<^verbatim>\<open>name\<close> is a property of the parameter classes that reads and writes \<^verbatim>\<open>_name\<close>.
\<close>

type_synonym pyobj = "(string \<times> pyvalue) list"

fun alist_update :: "'k \<Rightarrow> 'v \<Rightarrow> ('k \<times> 'v) list \<Rightarrow> ('k \<times> 'v) list" where
  "alist_update k v [] = [(k, v)]"
| "alist_update k v (p # ps) = (if fst p = k then (k, v) # ps else p # alist_update k v ps)"

definition attr_key :: "string \<Rightarrow> string" where
  "attr_key n = (if n = ''name'' then ''_name'' else n)"

definition hasattr :: "pyobj \<Rightarrow> string \<Rightarrow> bool" where
  "hasattr obj n = (map_of obj (attr_key n) \<noteq> None)"

text \<open>\<^verbatim>\<open>obj.n\<close>: the value, or \<^verbatim>\<open>AttributeError\<close>.\<close>

definition getattr :: "pyobj \<Rightarrow> string \<Rightarrow> pyexc + pyvalue" where
  "getattr obj n = (case map_of obj (attr_key n) of Some v \<Rightarrow> Inr v | None \<Rightarrow> Inl AttributeError)"

text \<open>\<^verbatim>\<open>getattr(obj, n, d)\<close>.\<close>

definition getattr_default :: "pyobj \<Rightarrow> string \<Rightarrow> pyvalue \<Rightarrow> pyvalue" where
  "getattr_default obj n d = (case map_of obj (attr_key n) of Some v \<Rightarrow> v | None \<Rightarrow> d)"

definition setattr :: "pyobj \<Rightarrow> string \<Rightarrow> pyvalue \<Rightarrow> pyobj" where
  "setattr obj n v = alist_update (attr_key n) v obj"

text \<open>
  A method is looked up on the instance first: an attribute set under the name of a
  method hides it, and calling it raises \<^verbatim>\<open>TypeError\<close>, since no value that reaches an
  attribute this way can be called.
\<close>

definition call_method :: "pyobj \<Rightarrow> string \<Rightarrow> (pyexc + 'a) \<Rightarrow> pyexc + 'a" where
  "call_method obj n body = (if map_of obj n \<noteq> None then Inl TypeError else body)"

text \<open>
  \<^verbatim>\<open>d[k] = v\<close> on a dictionary: \<^verbatim>\<open>TypeError\<close> for a key that cannot be hashed; a key
  equal to an existing one keeps its place and the key object already there.
\<close>

fun dict_update :: "pyvalue \<Rightarrow> pyvalue \<Rightarrow> (pyvalue \<times> pyvalue) list \<Rightarrow> (pyvalue \<times> pyvalue) list" where
  "dict_update k v [] = [(k, v)]"
| "dict_update k v (p # ps) = (if py_eq (fst p) k then (fst p, v) # ps else p # dict_update k v ps)"

definition dict_setitem :: "(pyvalue \<times> pyvalue) list \<Rightarrow> pyvalue \<Rightarrow> pyvalue \<Rightarrow> pyexc + (pyvalue \<times> pyvalue) list" where
  "dict_setitem d k v = (if hashable k then Inr (dict_update k v d) else Inl TypeError)"

definition dict_contains :: "(pyvalue \<times> pyvalue) list \<Rightarrow> pyvalue \<Rightarrow> pyexc + bool" where
  "dict_contains d k = (if hashable k then Inr (py_in k (map fst d)) else Inl TypeError)"

fun dict_lookup :: "(pyvalue \<times> pyvalue) list \<Rightarrow> pyvalue \<Rightarrow> pyvalue option" where
  "dict_lookup [] k = None"
| "dict_lookup (p # ps) k = (if py_eq (fst p) k then Some (snd p) else dict_lookup ps k)"

subsection \<open>The XML document\<close>

text \<open>
  A node of \<^verbatim>\<open>xml.dom.minidom\<close>: an element with its tag name, its attributes in
  document order and its children, a text node or a comment. An element handed to a
  parameter constructor comes with its ancestors (tag name and attributes), the parent
  first; above the last ancestor is the document object.
\<close>

datatype xmlnode =
    Element string "(string \<times> string) list" "xmlnode list"
  | Text string
  | Comment string

type_synonym xmlattrs = "(string \<times> string) list"

record xmlelem =
  tagName :: string
  xattributes :: xmlattrs
  childNodes :: "xmlnode list"
  ancestors :: "(string \<times> xmlattrs) list"

definition hasAttribute :: "xmlattrs \<Rightarrow> string \<Rightarrow> bool" where
  "hasAttribute attrs n = (map_of attrs n \<noteq> None)"

text \<open>\<^verbatim>\<open>getAttribute\<close> gives the empty string for an attribute that is not there.\<close>

definition getAttribute :: "xmlattrs \<Rightarrow> string \<Rightarrow> string" where
  "getAttribute attrs n = (case map_of attrs n of Some v \<Rightarrow> v | None \<Rightarrow> [])"

text \<open>The elements of a subtree in document order, the root included, with ancestors.\<close>

fun elements_of :: "(string \<times> xmlattrs) list \<Rightarrow> xmlnode \<Rightarrow> xmlelem list" where
  "elements_of anc (Element t a cs) =
     \<lparr> tagName = t, xattributes = a, childNodes = cs, ancestors = anc \<rparr>
       # concat (map (elements_of ((t, a) # anc)) cs)"
| "elements_of anc (Text s) = []"
| "elements_of anc (Comment s) = []"

text \<open>\<^verbatim>\<open>e.getElementsByTagName(n)\<close>: the descendants of \<open>e\<close> named \<open>n\<close>; \<^verbatim>\<open>*\<close> is any name.\<close>

definition getElementsByTagName :: "xmlelem \<Rightarrow> string \<Rightarrow> xmlelem list" where
  "getElementsByTagName e n =
     filter (\<lambda>d. n = ''*'' \<or> tagName d = n)
       (concat (map (elements_of ((tagName e, xattributes e) # ancestors e)) (childNodes e)))"

text \<open>The same on the document, given by its top-level nodes.\<close>

definition doc_getElementsByTagName :: "xmlnode list \<Rightarrow> string \<Rightarrow> xmlelem list" where
  "doc_getElementsByTagName doc n =
     filter (\<lambda>d. n = ''*'' \<or> tagName d = n) (concat (map (elements_of []) doc))"

text \<open>\<^verbatim>\<open>node.firstChild.data\<close>: the text of a first child that is a text or a comment.\<close>

definition firstChild_data :: "xmlnode list \<Rightarrow> pyexc + string" where
  "firstChild_data cs =
     (case cs of
        Text s # _ \<Rightarrow> Inr s
      | Comment s # _ \<Rightarrow> Inr s
      | _ \<Rightarrow> Inl AttributeError)"

section \<open>The parameter model\<close>

subsection \<open>Tables of the module\<close>

definition DATA_TYPE_WIDTH :: "string \<Rightarrow> nat option" where
  "DATA_TYPE_WIDTH = map_of
     [(''int'', 1), (''float'', 1),
      (''color'', 3), (''point'', 3), (''vector'', 3), (''normal'', 3),
      (''matrix'', 16), (''string'', 0), (''struct'', 0)]"

definition DEFAULT_VALUE :: "string \<Rightarrow> pyvalue option" where
  "DEFAULT_VALUE = map_of
     [(''float'', PyFloat 0), (''float2'', PyTuple [PyFloat 0, PyFloat 0]),
      (''float3'', PyTuple [PyFloat 0, PyFloat 0, PyFloat 0]),
      (''int'', PyInt 0), (''int2'', PyTuple [PyInt 0, PyInt 0]),
      (''color'', PyTuple [PyFloat 0, PyFloat 0, PyFloat 0]),
      (''normal'', PyTuple [PyFloat 0, PyFloat 0, PyFloat 0]),
      (''vector'', PyTuple [PyFloat 0, PyFloat 0, PyFloat 0]),
      (''point'', PyTuple [PyFloat 0, PyFloat 0, PyFloat 0]),
      (''string'', PyStr []),
      (''matrix'', PyTuple [PyFloat 1, PyFloat 0, PyFloat 0, PyFloat 0,
                            PyFloat 0, PyFloat 1, PyFloat 0, PyFloat 0,
                            PyFloat 0, PyFloat 0, PyFloat 1, PyFloat 0,
                            PyFloat 0, PyFloat 0, PyFloat 0, PyFloat 1]),
      (''message'', PyNone)]"

definition PAGE_SEP :: string where
  "PAGE_SEP = ''|''"

text \<open>
  \<^verbatim>\<open>optional_attrs\<close>: the attribute names, each with the flag that its value goes through
  \<^verbatim>\<open>to_bool\<close>.
\<close>

definition optional_attrs :: "(string \<times> bool) list" where
  "optional_attrs =
     [(''URL'', False), (''buttonText'', False), (''connectable'', True), (''digits'', False),
      (''label'', False), (''match'', False), (''max'', False), (''min'', False),
      (''riattr'', False), (''riopt'', False), (''scriptText'', False),
      (''sensitivity'', False), (''slider'', False), (''slidermax'', False),
      (''slidermin'', False), (''syntax'', False), (''tag'', False), (''units'', False),
      (''vstructConditionalExpr'', False), (''vstructmember'', False), (''hidden'', True),
      (''color_enableFilmlookVis'', True), (''readOnly'', True), (''editable'', True),
      (''lockgeom'', True)]"

subsection \<open>\<^verbatim>\<open>NodeDescParam\<close>: the base class\<close>

text \<open>
  The visibility builder is a function of the host, handed to the constructors. It is
  called with the dictionary of operands and with a list of trigger names and changes
  both in place: the model gives it the contents of the two and takes their new contents,
  or the exception it raises. On the object the attribute \<^verbatim>\<open>build_condvis_func\<close> holds
  \<open>PyObject 0\<close> for the function, or \<^verbatim>\<open>None\<close>.
\<close>

type_synonym condvis_func =
  "(pyvalue \<times> pyvalue) list \<Rightarrow> pyvalue list \<Rightarrow> pyexc + ((pyvalue \<times> pyvalue) list \<times> pyvalue list)"

definition func_value :: "condvis_func option \<Rightarrow> pyvalue" where
  "func_value bcf = (case bcf of None \<Rightarrow> PyNone | Some f \<Rightarrow> PyObject 0)"

text \<open>
  \<^verbatim>\<open>
  def __init__(self, build_condvis_func):
      self._name = None
      self.type = None
      self.default = None
      self.has_ui_struct = False
      self.conditionalVisOps = {}
      self.trigger_params = []
      self.conditionalVisTrigger = False
      self.build_condvis_func = build_condvis_func
  \<close>
\<close>

definition NodeDescParam_init :: "condvis_func option \<Rightarrow> pyobj" where
  "NodeDescParam_init bcf =
     [(''_name'', PyNone), (''type'', PyNone), (''default'', PyNone),
      (''has_ui_struct'', PyBool False), (''conditionalVisOps'', PyDict []),
      (''trigger_params'', PyList []), (''conditionalVisTrigger'', PyBool False),
      (''build_condvis_func'', func_value bcf)]"

text \<open>
  \<^verbatim>\<open>max(x, 1.0)\<close> and \<^verbatim>\<open>min(x, 0.0)\<close>: the first argument unless the second is
  greater (smaller); numbers compare by value, anything else against a float is a
  \<^verbatim>\<open>TypeError\<close>.
\<close>

fun py_number :: "pyvalue \<Rightarrow> rat option" where
  "py_number (PyBool b) = Some (if b then 1 else 0)"
| "py_number (PyInt i) = Some (of_int i)"
| "py_number (PyFloat r) = Some r"
| "py_number v = None"

definition py_max_float :: "pyvalue \<Rightarrow> rat \<Rightarrow> pyexc + pyvalue" where
  "py_max_float x y =
     (case py_number x of
        Some r \<Rightarrow> Inr (if y > r then PyFloat y else x)
      | None \<Rightarrow> (case x of PyObject n \<Rightarrow> Inl Unmodelled | _ \<Rightarrow> Inl TypeError))"

definition py_min_float :: "pyvalue \<Rightarrow> rat \<Rightarrow> pyexc + pyvalue" where
  "py_min_float x y =
     (case py_number x of
        Some r \<Rightarrow> Inr (if y < r then PyFloat y else x)
      | None \<Rightarrow> (case x of PyObject n \<Rightarrow> Inl Unmodelled | _ \<Rightarrow> Inl TypeError))"

text \<open>\<^verbatim>\<open>DEFAULT_VALUE.get(self.type, None)\<close>: the key must be hashable.\<close>

definition default_value_get :: "pyvalue \<Rightarrow> pyexc + pyvalue" where
  "default_value_get t =
     (if \<not> hashable t then Inl TypeError
      else case t of
             PyStr s \<Rightarrow> Inr (case DEFAULT_VALUE s of Some v \<Rightarrow> v | None \<Rightarrow> PyNone)
           | _ \<Rightarrow> Inr PyNone)"

text \<open>
  \<^verbatim>\<open>
  def finalize(self):
      if self.default is None:
          self.default = DEFAULT_VALUE.get(self.type, None)
      if self.type in ['float', 'int']:
          if hasattr(self, 'min'):
              if not hasattr(self, 'max') and not hasattr(self, 'slidermax'):
                  setattr(self, 'slidermax', max(self.default, 1.0))
          elif hasattr(self, 'slider'):
              if not hasattr(self, 'min') and not hasattr(self, 'slidermin'):
                  setattr(self, 'slidermin', min(self.default, 0.0))
              if not hasattr(self, 'max') and not hasattr(self, 'slidermax'):
                  setattr(self, 'slidermax', max(self.default, 1.0))
      if self.conditionalVisOps and self.build_condvis_func is not None:
          self.build_condvis_func(self.conditionalVisOps, self.trigger_params)
  \<close>
  The three parts are three functions, run in this order. The builder is followed when
  it gets a dictionary and a list.
\<close>

definition finalize_default :: "pyobj \<Rightarrow> pyexc + pyobj" where
  "finalize_default obj =
     ebind (getattr obj ''default'') (\<lambda>d.
       if d = PyNone
       then ebind (getattr obj ''type'') (\<lambda>t.
              ebind (default_value_get t) (\<lambda>v. Inr (setattr obj ''default'' v)))
       else Inr obj)"

definition finalize_sliders :: "pyobj \<Rightarrow> pyexc + pyobj" where
  "finalize_sliders obj =
     ebind (getattr obj ''type'') (\<lambda>t.
       if py_in t [PyStr ''float'', PyStr ''int'']
       then
         (if hasattr obj ''min''
          then
            (if \<not> hasattr obj ''max'' \<and> \<not> hasattr obj ''slidermax''
             then ebind (getattr obj ''default'') (\<lambda>d.
                    ebind (py_max_float d 1) (\<lambda>m. Inr (setattr obj ''slidermax'' m)))
             else Inr obj)
          else if hasattr obj ''slider''
          then
            ebind (if \<not> hasattr obj ''min'' \<and> \<not> hasattr obj ''slidermin''
                   then ebind (getattr obj ''default'') (\<lambda>d.
                          ebind (py_min_float d 0) (\<lambda>m. Inr (setattr obj ''slidermin'' m)))
                   else Inr obj) (\<lambda>obj1.
              if \<not> hasattr obj1 ''max'' \<and> \<not> hasattr obj1 ''slidermax''
              then ebind (getattr obj1 ''default'') (\<lambda>d.
                     ebind (py_max_float d 1) (\<lambda>m. Inr (setattr obj1 ''slidermax'' m)))
              else Inr obj1)
          else Inr obj)
       else Inr obj)"

definition finalize_condvis :: "condvis_func option \<Rightarrow> pyobj \<Rightarrow> pyexc + pyobj" where
  "finalize_condvis bcf obj =
     ebind (getattr obj ''conditionalVisOps'') (\<lambda>ops.
       ebind (getattr obj ''build_condvis_func'') (\<lambda>fv.
         if py_truth ops \<and> fv \<noteq> PyNone
         then
           (case (fv, bcf) of
              (PyObject n, Some f) \<Rightarrow>
                ebind (getattr obj ''trigger_params'') (\<lambda>trig.
                  case (ops, trig) of
                    (PyDict d, PyList l) \<Rightarrow>
                      ebind (f d l) (\<lambda>r.
                        Inr (setattr (setattr obj ''conditionalVisOps'' (PyDict (fst r)))
                               ''trigger_params'' (PyList (snd r))))
                  | _ \<Rightarrow> Inl Unmodelled)
            | _ \<Rightarrow> Inl TypeError)
         else Inr obj))"

definition finalize :: "condvis_func option \<Rightarrow> pyobj \<Rightarrow> pyexc + pyobj" where
  "finalize bcf obj =
     call_method obj ''finalize''
       (ebind (finalize_default obj) (\<lambda>obj1.
          ebind (finalize_sliders obj1) (\<lambda>obj2. finalize_condvis bcf obj2)))"

text \<open>
  \<^verbatim>\<open>'%s (%s)' % (self.name, self.type)\<close>: the model formats strings and \<^verbatim>\<open>None\<close>.
\<close>

definition format_s :: "pyvalue \<Rightarrow> pyexc + string" where
  "format_s v = (case v of PyStr s \<Rightarrow> Inr s | PyNone \<Rightarrow> Inr ''None'' | _ \<Rightarrow> Inl Unmodelled)"

text \<open>
  \<^verbatim>\<open>
  def _format_help(self):
      if hasattr(self, 'help') and self.help is not None:
          attr_type_str = '%s (%s)' % (self.name, self.type)
          if not self.help.endswith(attr_type_str):
              if self.help:
                  self.help += '<br><br>'
              self.help += attr_type_str
  \<close>
  A help that is not a string has no \<^verbatim>\<open>endswith\<close>.
\<close>

definition format_help :: "pyobj \<Rightarrow> pyexc + pyobj" where
  "format_help obj =
     call_method obj ''_format_help''
       (case map_of obj ''help'' of
          None \<Rightarrow> Inr obj
        | Some PyNone \<Rightarrow> Inr obj
        | Some h \<Rightarrow>
            ebind (getattr obj ''name'') (\<lambda>n. ebind (format_s n) (\<lambda>ns.
              ebind (getattr obj ''type'') (\<lambda>t. ebind (format_s t) (\<lambda>ts.
                (case h of
                   PyStr hs \<Rightarrow>
                     (let attr_type_str = ns @ '' ('' @ ts @ '')'' in
                      if \<not> endswith hs attr_type_str
                      then Inr (setattr obj ''help''
                                 (PyStr ((if hs \<noteq> [] then hs @ ''<br><br>'' else hs) @ attr_type_str)))
                      else Inr obj)
                 | _ \<Rightarrow> Inl AttributeError))))))"

subsection \<open>\<^verbatim>\<open>NodeDescParamXML\<close>\<close>

text \<open>
  \<^verbatim>\<open>_set_type\<close>: the \<^verbatim>\<open>type\<close> attribute; else the first \<^verbatim>\<open>tag\<close> with a value inside the
  first \<^verbatim>\<open>tags\<close> element; else the first token of the \<^verbatim>\<open>tag\<close> attribute; else
  \<^verbatim>\<open>None\<close>.
\<close>

definition set_type :: "xmlelem \<Rightarrow> string option" where
  "set_type pdata =
     (if hasAttribute (xattributes pdata) ''type''
      then Some (getAttribute (xattributes pdata) ''type'')
      else
        (case getElementsByTagName pdata ''tags'' of
           tags0 # _ \<Rightarrow>
             (case filter (\<lambda>itg. hasAttribute (xattributes itg) ''value'')
                     (getElementsByTagName tags0 ''tag'') of
                itg # _ \<Rightarrow> Some (getAttribute (xattributes itg) ''value'')
              | [] \<Rightarrow> None)
         | [] \<Rightarrow>
             (let tag = getAttribute (xattributes pdata) ''tag'' in
              if tag \<noteq> []
              then (case split_on (CHR ''|'') tag of itg # _ \<Rightarrow> Some itg | [] \<Rightarrow> None)
              else None)))"

text \<open>
  \<^verbatim>\<open>
  def _set_size(self, pdata):
      if pdata.hasAttribute('isDynamicArray'):
          if pdata.getAttribute('isDynamicArray') != '0':
              self.size = - 1
          elif pdata.hasAttribute('arraySize'):
              self.size = int(pdata.getAttribute('arraySize'))
      elif pdata.hasAttribute('arraySize'):
          self.size = int(pdata.getAttribute('arraySize'))
      else:
          self.size = None
  \<close>
\<close>

definition set_size :: "builtins \<Rightarrow> xmlelem \<Rightarrow> pyobj \<Rightarrow> pyexc + pyobj" where
  "set_size B pdata obj =
     (let a = xattributes pdata in
      if hasAttribute a ''isDynamicArray''
      then
        (if getAttribute a ''isDynamicArray'' \<noteq> ''0''
         then Inr (setattr obj ''size'' (PyInt (- 1)))
         else if hasAttribute a ''arraySize''
         then ebind (py_int B (PyStr (getAttribute a ''arraySize'')))
                (\<lambda>n. Inr (setattr obj ''size'' (PyInt n)))
         else Inr obj)
      else if hasAttribute a ''arraySize''
      then ebind (py_int B (PyStr (getAttribute a ''arraySize'')))
             (\<lambda>n. Inr (setattr obj ''size'' (PyInt n)))
      else Inr (setattr obj ''size'' PyNone))"

text \<open>The conversion of one token of an array default: \<^verbatim>\<open>int\<close> or \<^verbatim>\<open>float\<close>.\<close>

definition str_to_num :: "builtins \<Rightarrow> string \<Rightarrow> string \<Rightarrow> pyexc + pyvalue" where
  "str_to_num B t v =
     (if t = ''int'' then ebind (py_int B (PyStr v)) (\<lambda>n. Inr (PyInt n)) else py_float B v)"

text \<open>
  One tuple of an array default, \<^verbatim>\<open>str_to_num(vals[i + j])\<close> for \<open>j\<close> below the width:
  \<^verbatim>\<open>IndexError\<close> when the tokens run out.
\<close>

fun take_convert :: "(string \<Rightarrow> pyexc + pyvalue) \<Rightarrow> nat \<Rightarrow> string list \<Rightarrow> pyexc + pyvalue list" where
  "take_convert conv 0 vals = Inr []"
| "take_convert conv (Suc n) [] = Inl IndexError"
| "take_convert conv (Suc n) (v # vs) =
     ebind (conv v) (\<lambda>x. ebind (take_convert conv n vs) (\<lambda>xs. Inr (x # xs)))"

text \<open>\<^verbatim>\<open>for i in range(0, len(vals), twidth)\<close>; the width is 3 or 16 where this is called.\<close>

function array_tuples :: "(string \<Rightarrow> pyexc + pyvalue) \<Rightarrow> nat \<Rightarrow> string list \<Rightarrow> pyexc + pyvalue list" where
  "array_tuples conv twidth vals =
     (if vals = [] \<or> twidth = 0 then Inr []
      else ebind (take_convert conv twidth vals) (\<lambda>tv.
             ebind (array_tuples conv twidth (drop twidth vals)) (\<lambda>rest.
               Inr (PyTuple tv # rest))))"
  by pat_completeness auto
termination
  by (relation "measure (\<lambda>(conv, twidth, vals). length vals)") auto

text \<open>
  \<^verbatim>\<open>
  def _set_default(self, pdata):
      if not pdata.hasAttribute('default'):
          return
      if self.type == 'struct':
          self.default = ""
          return
      pdefault = pdata.getAttribute('default')
      pdefault = self._handle_c_style_floats(pdefault)
      if 'string' not in self.type:
          psize = getattr(self, 'size', None)
          if psize is None:
              self.default = safe_value_eval(pdefault.replace(' ', ','))
          else:
              vals = pdefault.split()
              str_to_num = float
              if self.type == 'int':
                  str_to_num = int
              twidth = DATA_TYPE_WIDTH[self.type]
              self.default = []
              if twidth > 1:
                  for i in range(0, len(vals), twidth):
                      tvals = []
                      for j in range(twidth):
                          tvals.append(str_to_num(vals[i + j]))
                      self.default.append(tuple(tvals))
              else:
                  for val in vals:
                      self.default.append(str_to_num(val))
              if len(self.default) == 1 and psize > 0:
                  self.default = self.default * psize
      else:
          self.default = pdefault
  \<close>
  When this runs the type is a string of \<^verbatim>\<open>VALID_TYPES\<close> and the size is an integer,
  \<^verbatim>\<open>None\<close> or not set.
\<close>

definition set_default :: "builtins \<Rightarrow> xmlelem \<Rightarrow> pyobj \<Rightarrow> pyexc + pyobj" where
  "set_default B pdata obj =
     (let a = xattributes pdata in
      if \<not> hasAttribute a ''default'' then Inr obj
      else ebind (getattr obj ''type'') (\<lambda>t.
        case t of
          PyStr ts \<Rightarrow>
            if ts = ''struct'' then Inr (setattr obj ''default'' (PyStr []))
            else
              (let pdefault = handle_c_style_floats (getAttribute a ''default'') in
               if \<not> str_contains ''string'' ts
               then
                 (case getattr_default obj ''size'' PyNone of
                    PyNone \<Rightarrow>
                      ebind (safe_value_eval B (replace_char (CHR '' '') '','' pdefault))
                        (\<lambda>v. Inr (setattr obj ''default'' v))
                  | PyInt psize \<Rightarrow>
                      (let vals = split_ws pdefault in
                       case DATA_TYPE_WIDTH ts of
                         None \<Rightarrow> Inl KeyError
                       | Some twidth \<Rightarrow>
                           ebind (if twidth > 1
                                  then array_tuples (str_to_num B ts) twidth vals
                                  else emap (str_to_num B ts) vals) (\<lambda>d.
                             Inr (setattr obj ''default''
                                   (PyList (if length d = 1 \<and> psize > 0
                                            then concat (replicate (nat psize) d) else d)))))
                  | _ \<Rightarrow> Inl Unmodelled)
               else Inr (setattr obj ''default'' (PyStr pdefault)))
        | _ \<Rightarrow> Inl Unmodelled))"

text \<open>
  The \<^verbatim>\<open>options\<close> attribute of \<^verbatim>\<open>_set_widget\<close>:
  \<^verbatim>\<open>
  if ':' in tmp:
      for tok in tmp.split('|'):
          kval = tok.rsplit(':', 1)
          try:
              self.options[kval[0]] = kval[1]
          except ValueError:
              self.options[kval[0]] = kval[0]
  elif '|' in tmp:
      for opt in tmp.split('|'):
          self.options[opt] = opt
  else:
      self.options[tmp] = tmp
  \<close>
  A token without a colon makes \<^verbatim>\<open>kval[1]\<close> an \<^verbatim>\<open>IndexError\<close>, which the handler
  does not catch.
\<close>

definition options_of_attr :: "string \<Rightarrow> pyexc + (pyvalue \<times> pyvalue) list" where
  "options_of_attr tmp =
     (if CHR '':'' \<in> set tmp
      then efold (\<lambda>tok d. case rsplit1 (CHR '':'') tok of
                            [k, v] \<Rightarrow> dict_setitem d (PyStr k) (PyStr v)
                          | _ \<Rightarrow> Inl IndexError)
             (split_on (CHR ''|'') tmp) []
      else if CHR ''|'' \<in> set tmp
      then efold (\<lambda>opt d. dict_setitem d (PyStr opt) (PyStr opt)) (split_on (CHR ''|'') tmp) []
      else dict_setitem [] (PyStr tmp) (PyStr tmp))"

text \<open>\<^verbatim>\<open>tuple([float(v) for v in raw_val.split()])\<close>\<close>

definition float_tuple :: "builtins \<Rightarrow> string \<Rightarrow> pyexc + pyvalue" where
  "float_tuple B raw_val = ebind (emap (py_float B) (split_ws raw_val)) (\<lambda>vs. Inr (PyTuple vs))"

text \<open>
  The value of one element of a hint list or hint dictionary. In a hint list an element
  named \<^verbatim>\<open>string\<close> keeps its raw value; in a hint dictionary it is evaluated too.
\<close>

definition hint_value :: "builtins \<Rightarrow> bool \<Rightarrow> xmlelem \<Rightarrow> pyexc + pyvalue" where
  "hint_value B keep_strings elmt =
     (let raw_val = getAttribute (xattributes elmt) ''value'' in
      if tagName elmt \<in> set FLOATX then float_tuple B raw_val
      else if keep_strings \<and> tagName elmt = ''string'' then Inr (PyStr raw_val)
      else safe_value_eval B raw_val)"

text \<open>
  \<^verbatim>\<open>
  for hint in hintlist:
      hname = hint.getAttribute('name')
      elmts = hint.getElementsByTagName('*')
      val_dict = OrderedDict()
      for elmt in elmts:
          ...
          val_dict[val] = val
      setattr(self, hname, val_dict)
  \<close>
\<close>

definition set_hintlist :: "builtins \<Rightarrow> xmlelem \<Rightarrow> pyobj \<Rightarrow> pyexc + pyobj" where
  "set_hintlist B hint obj =
     ebind (efold (\<lambda>elmt d. ebind (hint_value B True elmt) (\<lambda>v. dict_setitem d v v))
              (getElementsByTagName hint ''*'') [])
       (\<lambda>val_dict. Inr (setattr obj (getAttribute (xattributes hint) ''name'') (PyDict val_dict)))"

text \<open>
  \<^verbatim>\<open>
  for hint in hintdict:
      dict_name = hint.getAttribute('name')
      setattr(self, dict_name, OrderedDict())
      elmts = hint.getElementsByTagName('*')
      this_attr = getattr(self, dict_name)
      for elmt in elmts:
          key = elmt.getAttribute('name')
          ...
          this_attr[key] = val
  \<close>
\<close>

definition set_hintdict :: "builtins \<Rightarrow> xmlelem \<Rightarrow> pyobj \<Rightarrow> pyexc + pyobj" where
  "set_hintdict B hint obj =
     ebind (efold (\<lambda>elmt d. ebind (hint_value B False elmt)
                     (\<lambda>v. dict_setitem d (PyStr (getAttribute (xattributes elmt) ''name'')) v))
              (getElementsByTagName hint ''*'') [])
       (\<lambda>this_attr. Inr (setattr obj (getAttribute (xattributes hint) ''name'') (PyDict this_attr)))"

definition set_widget :: "builtins \<Rightarrow> xmlelem \<Rightarrow> pyobj \<Rightarrow> pyexc + pyobj" where
  "set_widget B pdata obj =
     (let a = xattributes pdata in
      ebind (if hasAttribute a ''options''
             then ebind (options_of_attr (getAttribute a ''options''))
                    (\<lambda>d. Inr (setattr obj ''options'' (PyDict d)))
             else Inr obj) (\<lambda>obj1.
        ebind (efold (set_hintlist B) (getElementsByTagName pdata ''hintlist'') obj1) (\<lambda>obj2.
          ebind (efold (set_hintdict B) (getElementsByTagName pdata ''hintdict'') obj2) (\<lambda>obj3.
            Inr (setattr obj3 ''widget''
                  (PyStr (if hasAttribute a ''widget'' then getAttribute a ''widget''
                          else ''default'')))))))"

text \<open>
  \<^verbatim>\<open>
  def _set_page(self, pdata):
      self.page = ''
      p_node = pdata.parentNode
      if p_node.hasAttribute('open'):
          self.page_open = (str(p_node.getAttribute('open')).lower() == 'true')
      while p_node.tagName == 'page':
          self.page = p_node.getAttribute('name') + PAGE_SEP + self.page
          p_node = p_node.parentNode
      if self.page[-1:] == PAGE_SEP:
          self.page = self.page[:-1]
  \<close>
  The document object above the root element has neither \<^verbatim>\<open>hasAttribute\<close> nor
  \<^verbatim>\<open>tagName\<close>.
\<close>

fun page_path :: "(string \<times> xmlattrs) list \<Rightarrow> string \<Rightarrow> pyexc + string" where
  "page_path [] page = Inl AttributeError"
| "page_path (p # anc) page =
     (if fst p = ''page'' then page_path anc (getAttribute (snd p) ''name'' @ PAGE_SEP @ page)
      else Inr page)"

definition set_page :: "xmlelem \<Rightarrow> pyobj \<Rightarrow> pyexc + pyobj" where
  "set_page pdata obj =
     call_method obj ''_set_page''
       (case ancestors pdata of
          [] \<Rightarrow> Inl AttributeError
        | p_node # _ \<Rightarrow>
            (let obj1 = setattr obj ''page'' (PyStr []);
                 obj2 = (if hasAttribute (snd p_node) ''open''
                         then setattr obj1 ''page_open''
                                (PyBool (lower (getAttribute (snd p_node) ''open'') = ''true''))
                         else obj1)
             in ebind (page_path (ancestors pdata) []) (\<lambda>page.
                  Inr (setattr obj2 ''page''
                        (PyStr (if page \<noteq> [] \<and> [last page] = PAGE_SEP then butlast page
                                else page))))))"

text \<open>
  \<^verbatim>\<open>
  def _set_help(self, pdata):
      has_help = True
      help_node = pdata.getElementsByTagName('help')
      if help_node:
          self.help = help_node[0].firstChild.data
      elif pdata.hasAttribute('help'):
          self.help = pdata.getAttribute('help')
      else:
          has_help = False
      if has_help:
          self.help = re.sub(r'\n\s+', '<br>', self.help.strip())
      self._format_help()
  \<close>
\<close>

definition set_help :: "xmlelem \<Rightarrow> pyobj \<Rightarrow> pyexc + pyobj" where
  "set_help pdata obj =
     call_method obj ''_set_help''
       (ebind (case getElementsByTagName pdata ''help'' of
                 h # _ \<Rightarrow> ebind (firstChild_data (childNodes h)) (\<lambda>d. Inr (Some d))
               | [] \<Rightarrow> if hasAttribute (xattributes pdata) ''help''
                        then Inr (Some (getAttribute (xattributes pdata) ''help''))
                        else Inr None) (\<lambda>help.
          format_help (case help of
                         Some h \<Rightarrow> setattr obj ''help'' (PyStr (sub_newlines (strip h)))
                       | None \<Rightarrow> obj)))"

text \<open>
  \<^verbatim>\<open>
  def _set_conditional_vis_ops(self, pdata):
      for i in range(pdata.attributes.length):
          pname = pdata.attributes.item(i).name
          if re.match(RE_VISOP, pname):
              val = pdata.getAttribute(pname)
              if '/' in val:
                  val = val.rsplit('/', 1)[-1]
              self.conditionalVisOps[pname] = safe_value_eval(val)
  \<close>
\<close>

definition set_one_vis_op :: "builtins \<Rightarrow> xmlelem \<Rightarrow> string \<Rightarrow> pyobj \<Rightarrow> pyexc + pyobj" where
  "set_one_vis_op B pdata pname obj =
     (if match_RE_VISOP pname
      then
        (let val = getAttribute (xattributes pdata) pname;
             val1 = (if CHR ''/'' \<in> set val then last (rsplit1 (CHR ''/'') val) else val)
         in ebind (safe_value_eval B val1) (\<lambda>v.
              ebind (getattr obj ''conditionalVisOps'') (\<lambda>ops.
                case ops of
                  PyDict d \<Rightarrow> ebind (dict_setitem d (PyStr pname) v)
                                (\<lambda>d'. Inr (setattr obj ''conditionalVisOps'' (PyDict d')))
                | _ \<Rightarrow> Inl TypeError)))
      else Inr obj)"

definition set_conditional_vis_ops :: "builtins \<Rightarrow> xmlelem \<Rightarrow> pyobj \<Rightarrow> pyexc + pyobj" where
  "set_conditional_vis_ops B pdata obj =
     call_method obj ''_set_conditional_vis_ops''
       (efold (set_one_vis_op B pdata) (map fst (xattributes pdata)) obj)"

text \<open>
  One turn of the loop over \<^verbatim>\<open>optional_attrs\<close>:
  \<^verbatim>\<open>
  if pdata.hasAttribute(attr):
      val = pdata.getAttribute(attr)
      val = self._handle_c_style_floats(val)
      if self.type in FLOAT3 and self.size is None:
          if 'min' in attr or 'max' in attr:
              val = tuple([float(v) for v in val.split()])
      try:
          val = safe_value_eval(val)
      except BaseException:
          pass
      setattr(self, attr, val if not func else func(val))
  \<close>
  \<^verbatim>\<open>eval\<close> of a tuple raises inside \<^verbatim>\<open>safe_value_eval\<close>, which then returns the tuple.
\<close>

definition safe_value_eval_any :: "builtins \<Rightarrow> pyvalue \<Rightarrow> pyexc + pyvalue" where
  "safe_value_eval_any B val = (case val of PyStr s \<Rightarrow> safe_value_eval B s | _ \<Rightarrow> Inr val)"

definition set_one_optional :: "builtins \<Rightarrow> xmlelem \<Rightarrow> string \<times> bool \<Rightarrow> pyobj \<Rightarrow> pyexc + pyobj" where
  "set_one_optional B pdata af obj =
     (let attr = fst af; a = xattributes pdata in
      if hasAttribute a attr
      then
        ebind (call_method obj ''_handle_c_style_floats''
                 (Inr (handle_c_style_floats (getAttribute a attr)))) (\<lambda>val.
          ebind (getattr obj ''type'') (\<lambda>t.
            ebind (if py_in t (map PyStr FLOAT3)
                   then ebind (getattr obj ''size'') (\<lambda>sz. Inr (sz = PyNone))
                   else Inr False) (\<lambda>scalar3.
              ebind (if scalar3 \<and> (str_contains ''min'' attr \<or> str_contains ''max'' attr)
                     then float_tuple B val else Inr (PyStr val)) (\<lambda>val1.
                ebind (safe_value_eval_any B val1) (\<lambda>val2.
                  ebind (if snd af then ebind (to_bool B val2) (\<lambda>b. Inr (PyBool b))
                         else Inr val2) (\<lambda>val3.
                    Inr (setattr obj attr val3)))))))
      else Inr obj)"

text \<open>
  The rest of \<^verbatim>\<open>_set_optional_attributes\<close>: the \<^verbatim>\<open>vstruct\<close> tag and the widget check.
  \<^verbatim>\<open>
  tags = pdata.getElementsByTagName('tags')
  if len(tags):
      elmts = tags[0].getElementsByTagName('*')
      for elmt in elmts:
          if elmt.hasAttribute('value'):
              if elmt.getAttribute('value') == 'vstruct':
                  self.vstruct = True
                  break
  if hasattr(self, 'widget'):
      if self.widget == 'dynamicArray':
          self.widget = 'default'
  \<close>
\<close>

definition set_vstruct :: "xmlelem \<Rightarrow> pyobj \<Rightarrow> pyobj" where
  "set_vstruct pdata obj =
     (case getElementsByTagName pdata ''tags'' of
        [] \<Rightarrow> obj
      | tags0 # _ \<Rightarrow>
          if list_ex (\<lambda>elmt. hasAttribute (xattributes elmt) ''value''
                         \<and> getAttribute (xattributes elmt) ''value'' = ''vstruct'')
               (getElementsByTagName tags0 ''*'')
          then setattr obj ''vstruct'' (PyBool True)
          else obj)"

definition widget_check :: "pyobj \<Rightarrow> pyobj" where
  "widget_check obj =
     (case map_of obj ''widget'' of
        Some w \<Rightarrow> if py_eq w (PyStr ''dynamicArray'')
                  then setattr obj ''widget'' (PyStr ''default'') else obj
      | None \<Rightarrow> obj)"

text \<open>
  \<^verbatim>\<open>_set_optional_attributes\<close>. An attribute \<^verbatim>\<open>optional_attrs\<close> set on the instance by
  a hint would replace the list of the class: the model does not follow that.
\<close>

definition set_optional_attributes :: "builtins \<Rightarrow> xmlelem \<Rightarrow> pyobj \<Rightarrow> pyexc + pyobj" where
  "set_optional_attributes B pdata obj =
     ebind (set_size B pdata obj) (\<lambda>obj1.
       ebind (set_default B pdata obj1) (\<lambda>obj2.
         ebind (set_widget B pdata obj2) (\<lambda>obj3.
           ebind (set_page pdata obj3) (\<lambda>obj4.
             ebind (set_help pdata obj4) (\<lambda>obj5.
               ebind (set_conditional_vis_ops B pdata obj5) (\<lambda>obj6.
                 ebind (if map_of obj6 ''optional_attrs'' \<noteq> None then Inl Unmodelled
                        else efold (set_one_optional B pdata) optional_attrs obj6) (\<lambda>obj7.
                   Inr (widget_check (set_vstruct pdata obj7)))))))))"

text \<open>
  \<^verbatim>\<open>
  def __init__(self, pdata, build_condvis_func=None):
      super(NodeDescParamXML, self).__init__(build_condvis_func)
      self.name = pdata.getAttribute('name')
      self.type = validate_type(self.name, self._set_type(pdata))
      self._set_optional_attributes(pdata)
      self.finalize()
  \<close>
\<close>

definition NodeDescParamXML :: "builtins \<Rightarrow> condvis_func option \<Rightarrow> xmlelem \<Rightarrow> pyexc + pyobj" where
  "NodeDescParamXML B bcf pdata =
     (let obj = setattr (NodeDescParam_init bcf) ''name''
                  (PyStr (getAttribute (xattributes pdata) ''name'')) in
      ebind (validate_type (getAttribute (xattributes pdata) ''name'') (set_type pdata)) (\<lambda>t.
        ebind (set_optional_attributes B pdata (setattr obj ''type'' (PyStr t))) (\<lambda>obj1.
          finalize bcf obj1)))"

subsection \<open>\<^verbatim>\<open>NodeDescParamJSON\<close>\<close>

text \<open>
  The JSON record of a parameter is an ordered dictionary with string keys: the list of
  its items. A key may be any string; the loop sets it as an attribute.
  \<^verbatim>\<open>
  for key, val in pdata.items():
      if not self.valid_keyword(key):
          logger().warning('unknown JSON keyword: %s', key)
      setattr(self, key, val)
  \<close>
\<close>

definition json_setattrs :: "(string \<times> pyvalue) list \<Rightarrow> pyobj \<Rightarrow> pyexc + pyobj" where
  "json_setattrs pdata obj =
     efold (\<lambda>kv o1. call_method o1 ''valid_keyword'' (Inr (setattr o1 (fst kv) (snd kv)))) pdata obj"

text \<open>
  \<^verbatim>\<open>self.conditionalVisOps.update(getattr(self, 'conditionalLockOps', {}))\<close>: both are
  dictionaries in a well-formed file; the model follows that case and the plain failures.
\<close>

definition condvis_update :: "pyobj \<Rightarrow> pyexc + pyobj" where
  "condvis_update obj =
     ebind (getattr obj ''conditionalVisOps'') (\<lambda>ops.
       case ops of
         PyDict d \<Rightarrow>
           (case getattr_default obj ''conditionalLockOps'' (PyDict []) of
              PyDict l \<Rightarrow>
                ebind (efold (\<lambda>kv d1. dict_setitem d1 (fst kv) (snd kv)) l d)
                  (\<lambda>d'. Inr (setattr obj ''conditionalVisOps'' (PyDict d')))
            | PyNone \<Rightarrow> Inl TypeError
            | PyBool b \<Rightarrow> Inl TypeError
            | PyInt i \<Rightarrow> Inl TypeError
            | PyFloat r \<Rightarrow> Inl TypeError
            | _ \<Rightarrow> Inl Unmodelled)
       | _ \<Rightarrow> Inl AttributeError)"

text \<open>
  \<^verbatim>\<open>
  def _postprocess_page(self):
      this_page = getattr(self, 'page', None)
      if this_page:
          setattr(self, 'page', this_page.replace('/', PAGE_SEP))
  \<close>
\<close>

definition postprocess_page :: "pyobj \<Rightarrow> pyexc + pyobj" where
  "postprocess_page obj =
     call_method obj ''_postprocess_page''
       (let this_page = getattr_default obj ''page'' PyNone in
        if py_truth this_page
        then (case this_page of
                PyStr s \<Rightarrow> Inr (setattr obj ''page'' (PyStr (replace_char (CHR ''/'') PAGE_SEP s)))
              | _ \<Rightarrow> Inl AttributeError)
        else Inr obj)"

text \<open>
  \<^verbatim>\<open>
  def _postprocess_default(self):
      if self.size and self.size > 0 and len(self.default) == 1:
          self.default = self.default * self.size
  \<close>
  The size compares with 0 when it is a number; \<^verbatim>\<open>len\<close> is defined on strings, lists,
  tuples and dictionaries; a string, list or tuple is repeated by an integer or a boolean.
\<close>

definition py_gt_zero :: "pyvalue \<Rightarrow> pyexc + bool" where
  "py_gt_zero v =
     (case py_number v of
        Some r \<Rightarrow> Inr (r > 0)
      | None \<Rightarrow> (case v of PyObject n \<Rightarrow> Inl Unmodelled | _ \<Rightarrow> Inl TypeError))"

definition py_len :: "pyvalue \<Rightarrow> pyexc + nat" where
  "py_len v =
     (case v of
        PyStr s \<Rightarrow> Inr (length s)
      | PyList xs \<Rightarrow> Inr (length xs)
      | PyTuple xs \<Rightarrow> Inr (length xs)
      | PyDict kvs \<Rightarrow> Inr (length kvs)
      | PyObject n \<Rightarrow> Inl Unmodelled
      | _ \<Rightarrow> Inl TypeError)"

definition py_repeat :: "pyvalue \<Rightarrow> pyvalue \<Rightarrow> pyexc + pyvalue" where
  "py_repeat v n =
     (case (case n of PyInt i \<Rightarrow> Some i | PyBool b \<Rightarrow> Some (if b then 1 else 0) | _ \<Rightarrow> None) of
        Some i \<Rightarrow>
          (case v of
             PyStr s \<Rightarrow> Inr (PyStr (concat (replicate (nat i) s)))
           | PyList xs \<Rightarrow> Inr (PyList (concat (replicate (nat i) xs)))
           | PyTuple xs \<Rightarrow> Inr (PyTuple (concat (replicate (nat i) xs)))
           | PyObject k \<Rightarrow> Inl Unmodelled
           | _ \<Rightarrow> Inl TypeError)
      | None \<Rightarrow> (case n of PyObject k \<Rightarrow> Inl Unmodelled | _ \<Rightarrow> Inl TypeError))"

definition postprocess_default :: "pyobj \<Rightarrow> pyexc + pyobj" where
  "postprocess_default obj =
     call_method obj ''_postprocess_default''
       (ebind (getattr obj ''size'') (\<lambda>size.
          if py_truth size
          then ebind (py_gt_zero size) (\<lambda>pos.
                 if pos
                 then ebind (getattr obj ''default'') (\<lambda>d.
                        ebind (py_len d) (\<lambda>n.
                          if n = 1
                          then ebind (py_repeat d size) (\<lambda>d'. Inr (setattr obj ''default'' d'))
                          else Inr obj))
                 else Inr obj)
          else Inr obj))"

text \<open>
  \<^verbatim>\<open>
  def _postprocess_options(self):
      if hasattr(self, 'options') and isinstance(self.options, str):
          opts = self.options.split('|')
          self.options = OrderedDict()
          if ':' in opts[0]:
              for opt in opts:
                  key, val = opt.rsplit(':', 1)
                  try:
                      self.options[key] = safe_value_eval(val)
                  except BaseException:
                      self.options[key] = val
          else:
              for key in opts:
                  self.options[key] = key
  \<close>
  Unpacking a token without a colon is a \<^verbatim>\<open>ValueError\<close>.
\<close>

definition postprocess_options :: "builtins \<Rightarrow> pyobj \<Rightarrow> pyexc + pyobj" where
  "postprocess_options B obj =
     call_method obj ''_postprocess_options''
       (case map_of obj ''options'' of
          Some (PyStr s) \<Rightarrow>
            (let opts = split_on (CHR ''|'') s in
             ebind (if CHR '':'' \<in> set (hd opts)
                    then efold (\<lambda>opt d. case rsplit1 (CHR '':'') opt of
                                          [key, val] \<Rightarrow>
                                            ebind (safe_value_eval B val)
                                              (\<lambda>v. dict_setitem d (PyStr key) v)
                                        | _ \<Rightarrow> Inl ValueError) opts []
                    else efold (\<lambda>key d. dict_setitem d (PyStr key) (PyStr key)) opts [])
               (\<lambda>d. Inr (setattr obj ''options'' (PyDict d))))
        | _ \<Rightarrow> Inr obj)"

text \<open>
  \<^verbatim>\<open>
  def __init__(self, pdata, build_condvis_func=None):
      super(NodeDescParamJSON, self).__init__(build_condvis_func)
      self.name = None
      self.type = None
      self.size = None
      for key, val in pdata.items(): ...
      self.conditionalVisOps.update(getattr(self, 'conditionalLockOps', {}))
      self._postprocess_page()
      self.finalize()
      self._postprocess_default()
      self._postprocess_options()
      self._format_help()
  \<close>
\<close>

definition NodeDescParamJSON :: "builtins \<Rightarrow> condvis_func option \<Rightarrow> (string \<times> pyvalue) list \<Rightarrow> pyexc + pyobj" where
  "NodeDescParamJSON B bcf pdata =
     (let obj = setattr (setattr (setattr (NodeDescParam_init bcf)
                  ''name'' PyNone) ''type'' PyNone) ''size'' PyNone in
      ebind (json_setattrs pdata obj) (\<lambda>obj1.
        ebind (condvis_update obj1) (\<lambda>obj2.
          ebind (postprocess_page obj2) (\<lambda>obj3.
            ebind (finalize bcf obj3) (\<lambda>obj4.
              ebind (postprocess_default obj4) (\<lambda>obj5.
                ebind (postprocess_options B obj5) (\<lambda>obj6.
                  format_help obj6)))))))"

subsection \<open>\<^verbatim>\<open>NodeDescParamOSL\<close>\<close>

text \<open>
  The record \<^verbatim>\<open>oslquery\<close> gives for a parameter. Of each metadatum the parser reads the
  name and the \<^verbatim>\<open>default\<close> only; \<^verbatim>\<open>metadict\<close> maps the name to that value, the last
  metadatum of a name winning.
\<close>

record oslparam =
  osl_name :: string
  osl_type :: string
  isoutput :: bool
  isstruct :: bool
  structname :: string
  varlenarray :: bool
  arraylen :: int
  osl_default :: pyvalue
  metadata :: "(string \<times> pyvalue) list"

definition metadict_of :: "oslparam \<Rightarrow> (string \<times> pyvalue) list" where
  "metadict_of pdata = foldl (\<lambda>d kv. alist_update (fst kv) (snd kv) d) [] (metadata pdata)"

text \<open>\<^verbatim>\<open>osl_metadatum(metadict, name, default)\<close>\<close>

definition osl_metadatum :: "(string \<times> pyvalue) list \<Rightarrow> string \<Rightarrow> pyvalue \<Rightarrow> pyvalue" where
  "osl_metadatum metadict n d = (case map_of metadict n of Some v \<Rightarrow> v | None \<Rightarrow> d)"

text \<open>A string method called on a metadatum: \<^verbatim>\<open>AttributeError\<close> when it is no string.\<close>

definition as_str :: "pyvalue \<Rightarrow> pyexc + string" where
  "as_str v = (case v of PyStr s \<Rightarrow> Inr s | PyObject n \<Rightarrow> Inl Unmodelled | _ \<Rightarrow> Inl AttributeError)"

text \<open>\<^verbatim>\<open>s.replace('  ', ' ')\<close>\<close>

fun replace_2spaces :: "string \<Rightarrow> string" where
  "replace_2spaces (c # d # cs) =
     (if c = CHR '' '' \<and> d = CHR '' '' then CHR '' '' # replace_2spaces cs
      else c # replace_2spaces (d # cs))"
| "replace_2spaces cs = cs"

definition osl_set_type :: "oslparam \<Rightarrow> pyobj \<Rightarrow> pyobj \<times> string" where
  "osl_set_type pdata obj =
     (if isstruct pdata then (setattr obj ''struct_name'' (PyStr (structname pdata)), ''struct'')
      else (obj, hd (split_on (CHR ''['') (osl_type pdata))))"

definition osl_set_size :: "oslparam \<Rightarrow> pyobj \<Rightarrow> pyobj" where
  "osl_set_size pdata obj =
     setattr obj ''size''
       (if varlenarray pdata then PyInt (- 1)
        else if arraylen pdata > 0 then PyInt (arraylen pdata)
        else PyNone)"

text \<open>
  \<^verbatim>\<open>_set_widget\<close> of the OSL variant: the options (\<^verbatim>\<open>key:value\<close> or bare tokens, the
  value evaluated), the presets (\<^verbatim>\<open>key, val = preset.split(':')\<close>, a \<^verbatim>\<open>ValueError\<close>
  unless the token has exactly one colon) and the widget.
\<close>

definition osl_options :: "builtins \<Rightarrow> string \<Rightarrow> pyexc + (pyvalue \<times> pyvalue) list" where
  "osl_options B s =
     efold (\<lambda>opt d.
              (let kv = (if CHR '':'' \<in> set opt
                         then (case rsplit1 (CHR '':'') opt of
                                 [k, v] \<Rightarrow> (k, v) | _ \<Rightarrow> (opt, opt))
                         else (opt, opt))
               in ebind (safe_value_eval B (snd kv)) (\<lambda>v. dict_setitem d (PyStr (fst kv)) v)))
       (split_on (CHR ''|'') s) []"

definition osl_presets :: "builtins \<Rightarrow> pyvalue \<Rightarrow> string \<Rightarrow> pyexc + (pyvalue \<times> pyvalue) list" where
  "osl_presets B t s =
     efold (\<lambda>preset d.
              case split_on (CHR '':'') preset of
                [key, val] \<Rightarrow>
                  ebind (if py_in t (map PyStr FLOATX) then float_tuple B val
                         else if py_eq t (PyStr ''string'') then Inr (PyStr val)
                         else safe_value_eval B val)
                    (\<lambda>v. dict_setitem d (PyStr key) v)
              | _ \<Rightarrow> Inl ValueError)
       (split_on (CHR ''|'') s) []"

definition osl_set_widget :: "builtins \<Rightarrow> (string \<times> pyvalue) list \<Rightarrow> pyobj \<Rightarrow> pyexc + pyobj" where
  "osl_set_widget B metadict obj =
     ebind (case map_of metadict ''options'' of
              Some v \<Rightarrow> ebind (as_str v) (\<lambda>s. ebind (osl_options B s)
                          (\<lambda>d. Inr (setattr obj ''options'' (PyDict d))))
            | None \<Rightarrow> Inr obj) (\<lambda>obj1.
       ebind (case map_of metadict ''presets'' of
                Some v \<Rightarrow> ebind (as_str v) (\<lambda>s. ebind (getattr obj1 ''type'') (\<lambda>t.
                            ebind (osl_presets B t s)
                              (\<lambda>d. Inr (setattr obj1 ''presets'' (PyDict d)))))
              | None \<Rightarrow> Inr obj1) (\<lambda>obj2.
         Inr (setattr obj2 ''widget'' (osl_metadatum metadict ''widget'' (PyStr ''default'')))))"

definition osl_set_page :: "(string \<times> pyvalue) list \<Rightarrow> pyobj \<Rightarrow> pyexc + pyobj" where
  "osl_set_page metadict obj =
     (case map_of metadict ''page'' of
        Some v \<Rightarrow>
          ebind (as_str v) (\<lambda>s.
            Inr (setattr (setattr obj ''page'' (PyStr (replace_char (CHR ''.'') PAGE_SEP s)))
                   ''page_open'' (osl_metadatum metadict ''page_open'' (PyBool False))))
      | None \<Rightarrow> Inr obj)"

definition osl_set_help :: "(string \<times> pyvalue) list \<Rightarrow> pyobj \<Rightarrow> pyexc + pyobj" where
  "osl_set_help metadict obj =
     ebind (as_str (osl_metadatum metadict ''help'' (PyStr []))) (\<lambda>s.
       format_help (setattr obj ''help'' (PyStr (replace_2spaces s))))"

definition osl_set_conditional_vis_ops :: "builtins \<Rightarrow> (string \<times> pyvalue) list \<Rightarrow> pyobj \<Rightarrow> pyexc + pyobj" where
  "osl_set_conditional_vis_ops B metadict obj =
     efold (\<lambda>kv o1.
              if match_RE_VISOP (fst kv)
              then ebind (safe_value_eval_any B (snd kv)) (\<lambda>v.
                     ebind (getattr o1 ''conditionalVisOps'') (\<lambda>ops.
                       case ops of
                         PyDict d \<Rightarrow> ebind (dict_setitem d (PyStr (fst kv)) v)
                                       (\<lambda>d'. Inr (setattr o1 ''conditionalVisOps'' (PyDict d')))
                       | _ \<Rightarrow> Inl TypeError))
              else Inr o1) metadict obj"

text \<open>
  \<^verbatim>\<open>
  def __set_attr_named(attr_name):
      func = None
      if isinstance(attr_name, tuple):
          attr_name, func = attr_name
      if attr_name not in metadict:
          return
      val = metadict[attr_name]['default']
      setattr(self, attr_name, val if not func else func(val))
  \<close>
\<close>

definition osl_set_attr_named :: "builtins \<Rightarrow> (string \<times> pyvalue) list \<Rightarrow> string \<times> bool \<Rightarrow> pyobj \<Rightarrow> pyexc + pyobj" where
  "osl_set_attr_named B metadict af obj =
     (case map_of metadict (fst af) of
        None \<Rightarrow> Inr obj
      | Some val \<Rightarrow>
          ebind (if snd af then ebind (to_bool B val) (\<lambda>b. Inr (PyBool b)) else Inr val)
            (\<lambda>v. Inr (setattr obj (fst af) v)))"

definition osl_set_optional_attributes :: "builtins \<Rightarrow> oslparam \<Rightarrow> (string \<times> pyvalue) list \<Rightarrow> pyobj \<Rightarrow> pyexc + pyobj" where
  "osl_set_optional_attributes B pdata metadict obj =
     (let obj1 = osl_set_size pdata obj;
          obj2 = setattr obj1 ''default'' (osl_default pdata) in
      ebind (osl_set_widget B metadict obj2) (\<lambda>obj3.
        ebind (osl_set_page metadict obj3) (\<lambda>obj4.
          ebind (osl_set_help metadict obj4) (\<lambda>obj5.
            ebind (osl_set_conditional_vis_ops B metadict obj5) (\<lambda>obj6.
              ebind (efold (osl_set_attr_named B metadict) optional_attrs obj6) (\<lambda>obj7.
                Inr (if map_of obj7 ''tag'' \<noteq> None
                        \<and> py_eq (getattr_default obj7 ''tag'' PyNone) (PyStr ''vstruct'')
                     then setattr obj7 ''vstruct'' (PyBool True) else obj7)))))))"

text \<open>
  \<^verbatim>\<open>
  def __init__(self, pdata, build_condvis_func=None):
      super(NodeDescParamOSL, self).__init__(build_condvis_func)
      metadict = {d['name']: d for d in pdata['metadata']}
      self.category = self._set_category(pdata)
      self.name = self._set_name(pdata)
      self.type = validate_type(self.name, self._set_type(pdata))
      self._set_optional_attributes(pdata, metadict)
      self.finalize()
  \<close>
\<close>

definition NodeDescParamOSL :: "builtins \<Rightarrow> condvis_func option \<Rightarrow> oslparam \<Rightarrow> pyexc + pyobj" where
  "NodeDescParamOSL B bcf pdata =
     (let metadict = metadict_of pdata;
          obj = setattr (NodeDescParam_init bcf) ''category''
                  (PyStr (if isoutput pdata then ''output'' else ''param''));
          obj1 = setattr obj ''name'' (PyStr (osl_name pdata));
          ot = osl_set_type pdata obj1 in
      ebind (validate_type (osl_name pdata) (Some (snd ot))) (\<lambda>t.
        ebind (osl_set_optional_attributes B pdata metadict (setattr (fst ot) ''type'' (PyStr t)))
          (\<lambda>obj2. finalize bcf obj2)))"

section \<open>The node description\<close>

text \<open>
  What lies outside the parser is given to it: the path of the file with its base name
  and whether the file exists, and what the external readers return for it (the document
  \<^verbatim>\<open>xml.dom.minidom.parse\<close> builds or its failure, the query object of
  \<^verbatim>\<open>oslquery\<close>, the tree \<^verbatim>\<open>json_file.load\<close> returns), and the keys of
  \<^verbatim>\<open>TXMAKE_PRESETS\<close>.
\<close>

record FilePath =
  os_path :: string
  basename :: string
  path_exists :: bool

record oslquery =
  shadername :: string
  shadertype :: string
  osl_params :: "oslparam list"

datatype file_content =
    XmlDoc "xmlnode list"
  | XmlParseError
  | OsoQuery oslquery
  | JsonData "(string \<times> pyvalue) list"

datatype parsed =
    ParsedXml "xmlnode list"
  | ParsedOso oslquery
  | ParsedJson "(string \<times> pyvalue) list"

record NodeDesc =
  node_name :: pyvalue
  node_type :: pyvalue
  rman_node_type :: pyvalue
  node_help :: pyvalue
  params :: "pyobj list"
  outputs :: "pyobj list"
  attributes :: "pyobj list"
  param_dict :: "(pyvalue \<times> pyobj) list option"
  attribute_dict :: "(pyvalue \<times> pyobj) list option"
  output_dict :: "(pyvalue \<times> pyobj) list option"
  textured_params :: "pyobj list"
  pages_condvis_dict :: "(pyvalue \<times> pyvalue) list"
  pages_trigger_params :: "pyvalue list"
  ui_structs :: "(pyvalue \<times> pyvalue) list"
  ui_struct_membership :: "(pyvalue \<times> pyvalue) list"
  build_condvis_func :: "condvis_func option"
  parsed_data_type :: "string option"
  parsed_data :: "parsed option"

text \<open>
  The fields \<^verbatim>\<open>__init__\<close> sets before it calls \<^verbatim>\<open>_parse_node\<close> (\<open>node_name\<close> is
  \<^verbatim>\<open>_name\<close>, \<open>node_help\<close> is \<^verbatim>\<open>help\<close>, \<open>parsed_data\<close> is \<^verbatim>\<open>_parsed_data\<close>). The
  parameter classes are the three of the module.
\<close>

definition NodeDesc_init :: "condvis_func option \<Rightarrow> NodeDesc" where
  "NodeDesc_init bcf =
     \<lparr> node_name = PyNone, node_type = PyNone, rman_node_type = PyNone, node_help = PyNone,
       params = [], outputs = [], attributes = [],
       param_dict = None, attribute_dict = None, output_dict = None,
       textured_params = [], pages_condvis_dict = [], pages_trigger_params = [],
       ui_structs = [], ui_struct_membership = [],
       build_condvis_func = bcf, parsed_data_type = None, parsed_data = None \<rparr>"

text \<open>
  \<^verbatim>\<open>
  def clear_parsed_data(self):
      self._parsed_data = None
  \<close>
\<close>

definition clear_parsed_data :: "NodeDesc \<Rightarrow> NodeDesc" where
  "clear_parsed_data nd = nd\<lparr> parsed_data := None \<rparr>"

text \<open>
  Iterating over a value: the elements of a list or tuple, the keys of a dictionary, the
  characters of a string; a number or \<^verbatim>\<open>None\<close> is a \<^verbatim>\<open>TypeError\<close>.
\<close>

definition py_iter :: "pyvalue \<Rightarrow> pyexc + pyvalue list" where
  "py_iter v =
     (case v of
        PyList xs \<Rightarrow> Inr xs
      | PyTuple xs \<Rightarrow> Inr xs
      | PyDict kvs \<Rightarrow> Inr (map fst kvs)
      | PyStr s \<Rightarrow> Inr (map (\<lambda>c. PyStr [c]) s)
      | PyObject n \<Rightarrow> Inl Unmodelled
      | _ \<Rightarrow> Inl TypeError)"

text \<open>
  \<^verbatim>\<open>
  def _mark_if_textured(self, obj):
      opt = getattr(obj, 'options', None)
      if opt is None:
          return
      for iopt in opt:
          if iopt in TXMAKE_PRESETS.keys():
              self.textured_params.append(obj)
              return
  \<close>
\<close>

fun first_preset :: "string list \<Rightarrow> pyvalue list \<Rightarrow> pyexc + bool" where
  "first_preset presets [] = Inr False"
| "first_preset presets (iopt # opts) =
     (if \<not> hashable iopt then Inl TypeError
      else if py_in iopt (map PyStr presets) then Inr True
      else first_preset presets opts)"

text \<open>
  \<open>textured_params\<close> holds the parameter as it is when it is marked; the flag the last
  pass of \<^verbatim>\<open>_parse_node\<close> sets on a parameter is followed in \<open>params\<close> only.
\<close>

definition mark_if_textured :: "string list \<Rightarrow> pyobj \<Rightarrow> NodeDesc \<Rightarrow> pyexc + NodeDesc" where
  "mark_if_textured presets obj nd =
     (let opt = getattr_default obj ''options'' PyNone in
      if opt = PyNone then Inr nd
      else ebind (py_iter opt) (\<lambda>opts.
             ebind (first_preset presets opts) (\<lambda>found.
               Inr (if found then nd\<lparr> textured_params := textured_params nd @ [obj] \<rparr>
                    else nd))))"

subsection \<open>\<^verbatim>\<open>_parse_args_xml\<close>\<close>

text \<open>
  The node type: the first \<^verbatim>\<open>tag\<close> inside the first \<^verbatim>\<open>shaderType\<close> element, or
  \<^verbatim>\<open>typeTag\<close> when there is no \<^verbatim>\<open>shaderType\<close>; \<^verbatim>\<open>NodeDescError\<close> without them.
\<close>

definition xml_node_type :: "xmlnode list \<Rightarrow> FilePath \<Rightarrow> pyexc + string" where
  "xml_node_type xml xmlfile =
     (let st = doc_getElementsByTagName xml ''shaderType'';
          shader_types = (if st = [] then doc_getElementsByTagName xml ''typeTag'' else st) in
      case shader_types of
        s0 # _ \<Rightarrow>
          (case getElementsByTagName s0 ''tag'' of
             t0 # _ \<Rightarrow> Inr (getAttribute (xattributes t0) ''value'')
           | [] \<Rightarrow> Inl (mkNodeDescError (''No \"tag\" element in \"shaderType\" ! : '' @ os_path xmlfile)))
      | [] \<Rightarrow> Inl (mkNodeDescError (''No \"shaderType\" element in args file ! : '' @ os_path xmlfile)))"

text \<open>
  \<^verbatim>\<open>
  for node in xml.firstChild.childNodes:
      if node.nodeName == 'help':
          self.help = node.firstChild.data.strip()
  \<close>
\<close>

definition xml_node_help :: "xmlnode list \<Rightarrow> pyvalue \<Rightarrow> pyexc + pyvalue" where
  "xml_node_help xml h0 =
     (case xml of
        [] \<Rightarrow> Inl AttributeError
      | first # _ \<Rightarrow>
          efold (\<lambda>node h. case node of
                            Element t a cs \<Rightarrow>
                              if t = ''help''
                              then ebind (firstChild_data cs) (\<lambda>d. Inr (PyStr (strip d)))
                              else Inr h
                          | _ \<Rightarrow> Inr h)
            (case first of Element t a cs \<Rightarrow> cs | _ \<Rightarrow> []) h0)"

text \<open>
  \<^verbatim>\<open>
  for prm in params:
      obj = self.xmlparamclass(prm, self.build_condvis_func)
      self.params.append(obj)
      self._mark_if_textured(obj)
  \<close>
  and the same, without the texture mark, for the outputs and the attributes.
\<close>

definition xml_add_param :: "builtins \<Rightarrow> string list \<Rightarrow> xmlelem \<Rightarrow> NodeDesc \<Rightarrow> pyexc + NodeDesc" where
  "xml_add_param B presets prm nd =
     ebind (NodeDescParamXML B (build_condvis_func nd) prm) (\<lambda>obj.
       mark_if_textured presets obj (nd\<lparr> params := params nd @ [obj] \<rparr>))"

definition xml_add_output :: "builtins \<Rightarrow> xmlelem \<Rightarrow> NodeDesc \<Rightarrow> pyexc + NodeDesc" where
  "xml_add_output B opt nd =
     ebind (NodeDescParamXML B (build_condvis_func nd) opt) (\<lambda>obj.
       Inr (nd\<lparr> outputs := outputs nd @ [obj] \<rparr>))"

definition xml_add_attribute :: "builtins \<Rightarrow> xmlelem \<Rightarrow> NodeDesc \<Rightarrow> pyexc + NodeDesc" where
  "xml_add_attribute B att nd =
     ebind (NodeDescParamXML B (build_condvis_func nd) att) (\<lambda>obj.
       Inr (nd\<lparr> attributes := attributes nd @ [obj] \<rparr>))"

text \<open>
  \<^verbatim>\<open>
  for page in pages:
      page_name = page.getAttribute('name')
      if page.hasAttribute('conditionalVisOp') and self.build_condvis_func:
          self.pages_condvis_dict[page_name] = {
              'conditionalVisOp': page.getAttribute('conditionalVisOp'),
              'conditionalVisPath': page.getAttribute('conditionalVisPath'),
              'conditionalVisValue': safe_value_eval(
                  page.getAttribute('conditionalVisValue'))
              }
          self.build_condvis_func(
              self.pages_condvis_dict[page_name], self.pages_trigger_params)
  \<close>
\<close>

definition xml_page :: "builtins \<Rightarrow> xmlelem \<Rightarrow> NodeDesc \<Rightarrow> pyexc + NodeDesc" where
  "xml_page B page nd =
     (let a = xattributes page; page_name = PyStr (getAttribute a ''name'') in
      case (hasAttribute a ''conditionalVisOp'', build_condvis_func nd) of
        (True, Some f) \<Rightarrow>
          ebind (safe_value_eval B (getAttribute a ''conditionalVisValue'')) (\<lambda>v.
            ebind (f [(PyStr ''conditionalVisOp'', PyStr (getAttribute a ''conditionalVisOp'')),
                      (PyStr ''conditionalVisPath'', PyStr (getAttribute a ''conditionalVisPath'')),
                      (PyStr ''conditionalVisValue'', v)]
                     (pages_trigger_params nd)) (\<lambda>r.
              Inr (nd\<lparr> pages_condvis_dict :=
                          dict_update page_name (PyDict (fst r)) (pages_condvis_dict nd),
                        pages_trigger_params := snd r \<rparr>)))
      | _ \<Rightarrow> Inr nd)"

definition parse_args_xml :: "builtins \<Rightarrow> string list \<Rightarrow> xmlnode list \<Rightarrow> FilePath \<Rightarrow> NodeDesc \<Rightarrow> pyexc + NodeDesc" where
  "parse_args_xml B presets xml xmlfile nd =
     (let nm = PyStr (hd (rsplit1 (CHR ''.'') (basename xmlfile)));
          nd1 = nd\<lparr> parsed_data := Some (ParsedXml xml), parsed_data_type := Some ''xml'',
                    node_name := nm \<rparr> in
      ebind (xml_node_type xml xmlfile) (\<lambda>nt.
        ebind (xml_node_help xml (node_help nd1)) (\<lambda>h.
          (let nd2 = nd1\<lparr> node_type := PyStr nt, node_help := h,
                          rman_node_type :=
                            (case doc_getElementsByTagName xml ''metashader'' of
                               m # _ \<Rightarrow> PyStr (getAttribute (xattributes m) ''shader'')
                             | [] \<Rightarrow> nm) \<rparr> in
           ebind (efold (xml_add_param B presets) (doc_getElementsByTagName xml ''param'') nd2) (\<lambda>nd3.
             ebind (efold (xml_add_output B) (doc_getElementsByTagName xml ''output'') nd3) (\<lambda>nd4.
               ebind (efold (xml_add_attribute B) (doc_getElementsByTagName xml ''attribute'') nd4) (\<lambda>nd5.
                 efold (xml_page B) (doc_getElementsByTagName xml ''page'') nd5)))))))"

subsection \<open>\<^verbatim>\<open>_parse_oso_file\<close>\<close>

definition OSL_TO_RIS_TYPES :: "string \<Rightarrow> string option" where
  "OSL_TO_RIS_TYPES = map_of
     [(''surface'', ''bxdf''), (''displacement'', ''displacement''),
      (''volume'', ''bxdf''), (''shader'', ''pattern'')]"

text \<open>
  \<^verbatim>\<open>
  obj = self.oslparamclass(param_data, self.build_condvis_func)
  if '.' in obj.name:
      continue
  if obj.category == DescPropType.Param:
      if getattr(obj, 'lockgeom', True):
          self.params.append(obj)
          self._mark_if_textured(obj)
  elif obj.category == DescPropType.Output:
      self.outputs.append(obj)
  elif obj.category == DescPropType.Attribute:
      self.attributes.append(obj)
  \<close>
\<close>

definition oso_add_param :: "builtins \<Rightarrow> string list \<Rightarrow> oslparam \<Rightarrow> NodeDesc \<Rightarrow> pyexc + NodeDesc" where
  "oso_add_param B presets param_data nd =
     ebind (NodeDescParamOSL B (build_condvis_func nd) param_data) (\<lambda>obj.
       ebind (getattr obj ''name'') (\<lambda>n.
         ebind (py_iter n) (\<lambda>chars.
           if py_in (PyStr ''.'') chars then Inr nd
           else ebind (getattr obj ''category'') (\<lambda>c.
                  if py_eq c (PyStr ''param'')
                  then (if py_truth (getattr_default obj ''lockgeom'' (PyBool True))
                        then mark_if_textured presets obj (nd\<lparr> params := params nd @ [obj] \<rparr>)
                        else Inr nd)
                  else if py_eq c (PyStr ''output'')
                  then Inr (nd\<lparr> outputs := outputs nd @ [obj] \<rparr>)
                  else if py_eq c (PyStr ''attr'')
                  then Inr (nd\<lparr> attributes := attributes nd @ [obj] \<rparr>)
                  else Inr nd))))"

definition parse_oso_file :: "builtins \<Rightarrow> string list \<Rightarrow> oslquery \<Rightarrow> FilePath \<Rightarrow> NodeDesc \<Rightarrow> pyexc + NodeDesc" where
  "parse_oso_file B presets oinfo oso nd =
     (if \<not> path_exists oso then Inr nd
      else
        (case OSL_TO_RIS_TYPES (shadertype oinfo) of
           None \<Rightarrow> Inl KeyError
         | Some nt \<Rightarrow>
             efold (oso_add_param B presets) (osl_params oinfo)
               (nd\<lparr> parsed_data := Some (ParsedOso oinfo), parsed_data_type := Some ''oso'',
                    node_name := PyStr (shadername oinfo),
                    rman_node_type := PyStr (shadername oinfo),
                    node_type := PyStr nt \<rparr>)))"

subsection \<open>\<^verbatim>\<open>_parse_json_file\<close>\<close>

definition mkNodeDescIgnore :: "string \<Rightarrow> pyexc" where
  "mkNodeDescIgnore val = NodeDescIgnore (''NodeDesc Ignore: '' @ val)"

text \<open>\<^verbatim>\<open>'rmanNodeSchema' in validator\<close>, for what a JSON tree can hold under a key.\<close>

definition schema_contains :: "string \<Rightarrow> pyvalue \<Rightarrow> pyexc + bool" where
  "schema_contains t v =
     (case v of
        PyStr s \<Rightarrow> Inr (str_contains t s)
      | PyList xs \<Rightarrow> Inr (py_in (PyStr t) xs)
      | PyDict kvs \<Rightarrow> Inr (py_in (PyStr t) (map fst kvs))
      | _ \<Rightarrow> Inl TypeError)"

text \<open>\<^verbatim>\<open>pdata.items()\<close> on an entry of \<^verbatim>\<open>params\<close>: a JSON object has string keys.\<close>

definition json_items :: "pyvalue \<Rightarrow> pyexc + (string \<times> pyvalue) list" where
  "json_items v =
     (case v of
        PyDict kvs \<Rightarrow>
          emap (\<lambda>kv. case fst kv of PyStr k \<Rightarrow> Inr (k, snd kv) | _ \<Rightarrow> Inl Unmodelled) kvs
      | _ \<Rightarrow> Inl AttributeError)"

definition jdata_get :: "(string \<times> pyvalue) list \<Rightarrow> string \<Rightarrow> pyexc + pyvalue" where
  "jdata_get jdata k = (case map_of jdata k of Some v \<Rightarrow> Inr v | None \<Rightarrow> Inl KeyError)"

definition json_add_param :: "builtins \<Rightarrow> string list \<Rightarrow> pyvalue \<Rightarrow> NodeDesc \<Rightarrow> pyexc + NodeDesc" where
  "json_add_param B presets pdata nd =
     ebind (json_items pdata) (\<lambda>items.
       ebind (NodeDescParamJSON B (build_condvis_func nd) items) (\<lambda>param.
         mark_if_textured presets param (nd\<lparr> params := params nd @ [param] \<rparr>)))"

text \<open>
  \<^verbatim>\<open>
  jdata = json_file.load(jsonfile.os_path(), ordered=True)
  self._parsed_data = jdata
  self._parsed_data_type = 'json'
  validator = jdata.get('$schema', '')
  if validator == 'http://json-schema.org/schema#':
      raise NodeDescIgnore('Schema file: %s' % jsonfile.os_path())
  elif 'rmanNodeSchema' not in validator:
      self._invalid_json_file_warning(validator, jsonfile)
      raise NodeDescIgnore('Not a node file: %s' % jsonfile.os_path())
  mandatory_attr_list = ['name', 'node_type', 'rman_node_type']
  for attr in mandatory_attr_list:
      setattr(self, attr, jdata[attr])
  if 'params' in jdata:
      for pdata in jdata['params']: ...
  \<close>
\<close>

definition parse_json_file :: "builtins \<Rightarrow> string list \<Rightarrow> (string \<times> pyvalue) list \<Rightarrow> FilePath \<Rightarrow> NodeDesc \<Rightarrow> pyexc + NodeDesc" where
  "parse_json_file B presets jdata jsonfile nd =
     (let nd1 = nd\<lparr> parsed_data := Some (ParsedJson jdata), parsed_data_type := Some ''json'' \<rparr>;
          validator = (case map_of jdata ''$schema'' of Some v \<Rightarrow> v | None \<Rightarrow> PyStr []) in
      if py_eq validator (PyStr ''http://json-schema.org/schema#'')
      then Inl (mkNodeDescIgnore (''Schema file: '' @ os_path jsonfile))
      else ebind (schema_contains ''rmanNodeSchema'' validator) (\<lambda>is_node.
        if \<not> is_node then Inl (mkNodeDescIgnore (''Not a node file: '' @ os_path jsonfile))
        else ebind (jdata_get jdata ''name'') (\<lambda>n.
          ebind (jdata_get jdata ''node_type'') (\<lambda>nt.
            ebind (jdata_get jdata ''rman_node_type'') (\<lambda>rnt.
              (let nd2 = nd1\<lparr> node_name := n, node_type := nt, rman_node_type := rnt \<rparr> in
               case map_of jdata ''params'' of
                 None \<Rightarrow> Inr nd2
               | Some ps \<Rightarrow> ebind (py_iter ps) (\<lambda>pl.
                             efold (json_add_param B presets) pl nd2)))))))"

subsection \<open>\<^verbatim>\<open>_parse_node\<close>: the passes after the parse\<close>

text \<open>
  \<^verbatim>\<open>
  for i in range(len(self.params)):
      if self.params[i].name == 'notes' and self.params[i].type == 'string':
          del self.params[i]
          break
  \<close>
\<close>

definition is_notes :: "pyobj \<Rightarrow> pyexc + bool" where
  "is_notes prm =
     ebind (getattr prm ''name'') (\<lambda>n.
       if py_eq n (PyStr ''notes'')
       then ebind (getattr prm ''type'') (\<lambda>t. Inr (py_eq t (PyStr ''string'')))
       else Inr False)"

fun weed_notes :: "pyobj list \<Rightarrow> pyexc + pyobj list" where
  "weed_notes [] = Inr []"
| "weed_notes (prm # prms) =
     ebind (is_notes prm) (\<lambda>b.
       if b then Inr prms else ebind (weed_notes prms) (\<lambda>r. Inr (prm # r)))"

text \<open>
  The collection pass names the list of the node by a local variable and extends it in
  place:
  \<^verbatim>\<open>
  trigger_params_list = self.pages_trigger_params
  for prm in self.params:
      trigger_params_list += prm.condvis_trigger_params()
      if prm.has_ui_struct:
          struct_name = prm.uiStruct
          if struct_name not in self.ui_structs:
              self.ui_structs[struct_name] = []
          self.ui_structs[struct_name].append(prm.name)
          self.ui_struct_membership[prm.name] = struct_name
  trigger_params_list = list(set(trigger_params_list))
  for prm in self.params:
      if prm.name in trigger_params_list:
          prm.condvis_set_trigger(True)
  \<close>
  A local variable that names a list is a reference: to the list object the node holds in
  \<^verbatim>\<open>pages_trigger_params\<close>, or to a list object of its own. \<^verbatim>\<open>+=\<close> on a list extends
  the object the variable names and leaves the variable on it.
\<close>

datatype listref = SelfPagesTriggerParams | OwnList "pyvalue list"

definition deref :: "NodeDesc \<Rightarrow> listref \<Rightarrow> pyvalue list" where
  "deref nd r = (case r of SelfPagesTriggerParams \<Rightarrow> pages_trigger_params nd | OwnList xs \<Rightarrow> xs)"

definition list_iadd :: "listref \<Rightarrow> pyvalue list \<Rightarrow> NodeDesc \<Rightarrow> NodeDesc \<times> listref" where
  "list_iadd r ys nd =
     (case r of
        SelfPagesTriggerParams \<Rightarrow>
          (nd\<lparr> pages_trigger_params := pages_trigger_params nd @ ys \<rparr>, SelfPagesTriggerParams)
      | OwnList xs \<Rightarrow> (nd, OwnList (xs @ ys)))"

text \<open>The struct indices: \<^verbatim>\<open>ui_structs[struct_name]\<close> is a list of names.\<close>

definition add_ui_struct :: "pyobj \<Rightarrow> NodeDesc \<Rightarrow> pyexc + NodeDesc" where
  "add_ui_struct prm nd =
     ebind (getattr prm ''has_ui_struct'') (\<lambda>h.
       if py_truth h
       then ebind (getattr prm ''uiStruct'') (\<lambda>struct_name.
              ebind (dict_contains (ui_structs nd) struct_name) (\<lambda>known.
                ebind (getattr prm ''name'') (\<lambda>n.
                  (let us = (if known then ui_structs nd
                             else dict_update struct_name (PyList []) (ui_structs nd)) in
                   case dict_lookup us struct_name of
                     Some (PyList ms) \<Rightarrow>
                       ebind (dict_setitem (ui_struct_membership nd) n struct_name) (\<lambda>mem.
                         Inr (nd\<lparr> ui_structs := dict_update struct_name (PyList (ms @ [n])) us,
                                   ui_struct_membership := mem \<rparr>))
                   | _ \<Rightarrow> Inl Unmodelled))))
       else Inr nd)"

definition collect_one :: "pyobj \<Rightarrow> NodeDesc \<times> listref \<Rightarrow> pyexc + NodeDesc \<times> listref" where
  "collect_one prm st =
     call_method prm ''condvis_trigger_params''
       (ebind (getattr prm ''trigger_params'') (\<lambda>tp.
          ebind (py_iter tp) (\<lambda>names.
            (let st1 = list_iadd (snd st) names (fst st) in
             ebind (add_ui_struct prm (fst st1)) (\<lambda>nd1. Inr (nd1, snd st1))))))"

text \<open>\<^verbatim>\<open>list(set(xs))\<close>: the elements must be hashable; the result has each once.\<close>

fun py_remdups :: "pyvalue list \<Rightarrow> pyvalue list" where
  "py_remdups [] = []"
| "py_remdups (x # xs) = (if py_in x xs then py_remdups xs else x # py_remdups xs)"

definition list_of_set :: "pyvalue list \<Rightarrow> pyexc + pyvalue list" where
  "list_of_set xs = (if list_all hashable xs then Inr (py_remdups xs) else Inl TypeError)"

definition tag_trigger :: "pyvalue list \<Rightarrow> pyobj \<Rightarrow> pyexc + pyobj" where
  "tag_trigger trigger_params_list prm =
     ebind (getattr prm ''name'') (\<lambda>n.
       if py_in n trigger_params_list
       then call_method prm ''condvis_set_trigger''
              (Inr (setattr prm ''conditionalVisTrigger'' (PyBool True)))
       else Inr prm)"

definition post_parse :: "NodeDesc \<Rightarrow> pyexc + NodeDesc" where
  "post_parse nd =
     ebind (weed_notes (params nd)) (\<lambda>ps.
       (let nd1 = nd\<lparr> params := ps \<rparr>;
            trigger_params_list = SelfPagesTriggerParams in
        ebind (efold collect_one (params nd1) (nd1, trigger_params_list)) (\<lambda>st.
          ebind (list_of_set (deref (fst st) (snd st))) (\<lambda>own.
            (let trigger_params_list = OwnList own in
             ebind (emap (tag_trigger (deref (fst st) trigger_params_list)) (params (fst st)))
               (\<lambda>ps'. Inr ((fst st)\<lparr> params := ps' \<rparr>)))))))"

text \<open>
  \<^verbatim>\<open>
  def _parse_node(self, filepath):
      if filepath[-5:] == '.args':
          try:
              xmldoc = mx.parse(filepath.os_path())
          except BaseException as err:
              logger().warning(...)
          else:
              self._parse_args_xml(xmldoc, filepath)
      elif filepath[-4:] == '.oso':
          self._parse_oso_file(filepath)
      elif filepath[-5:] == '.json':
          self._parse_json_file(filepath)
      ...
  \<close>
  The content handed in is the one of the kind of the file.
\<close>

definition suffix_str :: "nat \<Rightarrow> string \<Rightarrow> string" where
  "suffix_str n s = drop (length s - n) s"

definition parse_format :: "builtins \<Rightarrow> string list \<Rightarrow> FilePath \<Rightarrow> file_content \<Rightarrow> NodeDesc \<Rightarrow> pyexc + NodeDesc" where
  "parse_format B presets filepath content nd =
     (if suffix_str 5 (os_path filepath) = ''.args''
      then (case content of
              XmlDoc xmldoc \<Rightarrow> parse_args_xml B presets xmldoc filepath nd
            | XmlParseError \<Rightarrow> Inr nd
            | _ \<Rightarrow> Inl Unmodelled)
      else if suffix_str 4 (os_path filepath) = ''.oso''
      then (case content of
              OsoQuery oinfo \<Rightarrow> parse_oso_file B presets oinfo filepath nd
            | _ \<Rightarrow> Inl Unmodelled)
      else if suffix_str 5 (os_path filepath) = ''.json''
      then (case content of
              JsonData jdata \<Rightarrow> parse_json_file B presets jdata filepath nd
            | _ \<Rightarrow> Inl Unmodelled)
      else Inr nd)"

definition parse_node :: "builtins \<Rightarrow> string list \<Rightarrow> FilePath \<Rightarrow> file_content \<Rightarrow> NodeDesc \<Rightarrow> pyexc + NodeDesc" where
  "parse_node B presets filepath content nd =
     ebind (parse_format B presets filepath content nd) post_parse"

text \<open>The constructor \<^verbatim>\<open>NodeDesc(filepath, build_condvis_func)\<close>.\<close>

definition NodeDesc_new :: "builtins \<Rightarrow> string list \<Rightarrow> condvis_func option \<Rightarrow> FilePath \<Rightarrow> file_content \<Rightarrow> pyexc + NodeDesc" where
  "NodeDesc_new B presets bcf filepath content =
     parse_node B presets filepath content (NodeDesc_init bcf)"

(*DEFS-END*)

section \<open>Outcomes of the builtins on the strings of the examples\<close>

text \<open>
  The concrete examples below need the outcome of \<^verbatim>\<open>eval\<close>, \<^verbatim>\<open>int\<close> and \<^verbatim>\<open>float\<close> on a
  few strings. These tables give what Python gives on the strings they list
  (\<^verbatim>\<open>eval("int")\<close> is the class \<^verbatim>\<open>int\<close>, \<^verbatim>\<open>eval("")\<close> is a \<^verbatim>\<open>SyntaxError\<close>,
  \<^verbatim>\<open>int("abc")\<close> is a \<^verbatim>\<open>ValueError\<close>); they are used at those strings only.
\<close>

definition example_eval :: "string \<Rightarrow> pyexc + pyvalue" where
  "example_eval s =
     (if s = ''0'' then Inr (PyInt 0)
      else if s = ''1'' then Inr (PyInt 1)
      else if s = ''int'' then Inr (PyType ''int'')
      else Inl OtherException)"

definition example_int :: "pyvalue \<Rightarrow> pyexc + int" where
  "example_int v =
     (case v of
        PyInt i \<Rightarrow> Inr i
      | PyBool b \<Rightarrow> Inr (if b then 1 else 0)
      | PyStr s \<Rightarrow>
          (if s = ''0'' then Inr 0 else if s = ''1'' then Inr 1
           else if s = ''2'' then Inr 2 else if s = ''3'' then Inr 3 else Inl ValueError)
      | _ \<Rightarrow> Inl TypeError)"

definition example_float :: "string \<Rightarrow> pyexc + pyvalue" where
  "example_float s =
     (if s = ''0'' then Inr (PyFloat 0)
      else if s = ''1'' then Inr (PyFloat 1)
      else if s = ''0.5'' then Inr (PyFloat (1 / 2))
      else Inl ValueError)"

definition example_builtins :: builtins where
  "example_builtins =
     \<lparr> py_eval = example_eval, py_int = example_int, py_float = example_float \<rparr>"

section \<open>Example parameters and documents\<close>



text \<open>\<^verbatim>\<open><param name="foo" type="float" isDynamicArray="0"/>\<close>\<close>

definition dynamic_zero_param :: xmlelem where
  "dynamic_zero_param =
     \<lparr> tagName = ''param'',
       xattributes = [(''name'', ''foo''), (''type'', ''float''), (''isDynamicArray'', ''0'')],
       childNodes = [], ancestors = [(''args'', [(''format'', ''1.0'')])] \<rparr>"

text \<open>\<^verbatim>\<open><param name="foo" type="color" isDynamicArray="0" label="Foo"/>\<close>\<close>

definition dynamic_zero_color_param :: xmlelem where
  "dynamic_zero_color_param =
     \<lparr> tagName = ''param'',
       xattributes = [(''name'', ''foo''), (''type'', ''color''), (''isDynamicArray'', ''0''),
                      (''label'', ''Foo'')],
       childNodes = [], ancestors = [(''args'', [(''format'', ''1.0'')])] \<rparr>"

text \<open>
  The names the collection pass takes from a parameter, \<^verbatim>\<open>prm.condvis_trigger_params()\<close>
  iterated, and the number of parameters of a list that are named \<^verbatim>\<open>notes\<close> with type
  \<^verbatim>\<open>string\<close>.
\<close>

definition trigger_names :: "pyobj \<Rightarrow> pyexc + pyvalue list" where
  "trigger_names prm = ebind (getattr prm ''trigger_params'') py_iter"

definition count_notes :: "pyobj list \<Rightarrow> nat" where
  "count_notes prms = length (filter (\<lambda>prm. is_notes prm = Inr True) prms)"

text \<open>
  A visibility builder for the examples: it records the visibility path of the operands
  as a trigger name.
\<close>

definition example_condvis :: condvis_func where
  "example_condvis ops trig =
     Inr (ops, trig @ (case dict_lookup ops (PyStr ''conditionalVisPath'') of
                         Some v \<Rightarrow> [v] | None \<Rightarrow> []))"

text \<open>
  \<^verbatim>\<open>
  <args format="1.0">
    <shaderType><tag value="pattern"/></shaderType>
    <page name="Main" conditionalVisOp="equalTo" conditionalVisPath="mode"
          conditionalVisValue="1">
      <param name="notes" type="string"/>
      <param name="mode" type="int"/>
      <param name="gain" type="float" conditionalVisOp="equalTo"
             conditionalVisPath="../enable" conditionalVisValue="1"/>
    </page>
    <output name="notes" type="string"/>
    <attribute name="notes" type="string"/>
  </args>
  \<close>
\<close>

definition notes_doc :: "xmlnode list" where
  "notes_doc =
     [Element ''args'' [(''format'', ''1.0'')]
        [Element ''shaderType'' [] [Element ''tag'' [(''value'', ''pattern'')] []],
         Element ''page'' [(''name'', ''Main''), (''conditionalVisOp'', ''equalTo''),
                           (''conditionalVisPath'', ''mode''), (''conditionalVisValue'', ''1'')]
           [Element ''param'' [(''name'', ''notes''), (''type'', ''string'')] [],
            Element ''param'' [(''name'', ''mode''), (''type'', ''int'')] [],
            Element ''param'' [(''name'', ''gain''), (''type'', ''float''),
                               (''conditionalVisOp'', ''equalTo''),
                               (''conditionalVisPath'', ''../enable''),
                               (''conditionalVisValue'', ''1'')] []],
         Element ''output'' [(''name'', ''notes''), (''type'', ''string'')] [],
         Element ''attribute'' [(''name'', ''notes''), (''type'', ''string'')] []]]"

definition notes_file :: FilePath where
  "notes_file = \<lparr> os_path = ''/shaders/Foo.args'', basename = ''Foo.args'', path_exists = True \<rparr>"

(*THMS-BEGIN*)

section \<open>Properties of the value coercion utilities\<close>



text \<open>
  Claim C7. \<^verbatim>\<open>to_bool\<close> is meant to raise \<^verbatim>\<open>ValueError\<close> for an input that is
  neither a number, a boolean nor one of \<^verbatim>\<open>'true'\<close>, \<^verbatim>\<open>'false'\<close>. It never does:
  when \<^verbatim>\<open>int(val)\<close> raises \<^verbatim>\<open>ValueError\<close>, \<^verbatim>\<open>bool(val)\<close> returns the truth value of
  the object, so the inner handler and the final \<^verbatim>\<open>raise\<close> are never reached.
\<close>

theorem to_bool_never_ValueError: "to_bool B val \<noteq> Inl ValueError"
  by (auto simp: to_bool_def py_bool_def split: sum.splits pyexc.splits)

lemma to_bool_str_no_int:
  "py_int B (PyStr s) = Inl ValueError \<Longrightarrow> to_bool B (PyStr s) = Inr (s \<noteq> [])"
  by (simp add: to_bool_def py_bool_def)

lemma to_bool_examples:
  "to_bool example_builtins (PyStr ''abc'') = Inr True"
  "to_bool example_builtins (PyStr ''false'') = Inr True"
  "to_bool example_builtins (PyStr ''true'') = Inr True"
  "to_bool example_builtins (PyStr ''0'') = Inr False"
  "to_bool example_builtins (PyStr ''1'') = Inr True"
  "to_bool example_builtins (PyBool False) = Inr False"
  by (simp_all add: to_bool_def py_bool_def example_builtins_def example_int_def)

subsection \<open>\<^verbatim>\<open>validate_type\<close>\<close>

lemma repr_str_plain:
  assumes "repr_plain s"
  shows "repr_str s = [repr_quote s] @ s @ [repr_quote s]"
proof -
  from assms have a1: "\<forall>c \<in> set s. c \<noteq> CHR 0x5C \<and> (0x20::nat) \<le> of_char c \<and> of_char c < (0x7F::nat)"
    and a2: "\<not> (CHR 0x27 \<in> set s \<and> CHR 0x22 \<in> set s)"
    by (auto simp: repr_plain_def list_all_iff)
  have q: "repr_quote s \<notin> set s" using a2 by (auto simp: repr_quote_def)
  have "\<forall>c \<in> set s. repr_char (repr_quote s) c = [c]"
  proof
    fix c assume c: "c \<in> set s"
    with q have "c \<noteq> repr_quote s" by auto
    moreover from c a1 have "c \<noteq> CHR 0x5C" "(0x20::nat) \<le> of_char c" "of_char c < (0x7F::nat)" by auto
    moreover have "c \<noteq> CHR 0x09" "c \<noteq> CHR 0x0A" "c \<noteq> CHR 0x0D" using \<open>(0x20::nat) \<le> of_char c\<close> by auto
    ultimately show "repr_char (repr_quote s) c = [c]" by (simp add: repr_char_def)
  qed
  then have "concat (map (repr_char (repr_quote s)) s) = concat (map (\<lambda>c. [c]) s)"
    by (intro arg_cong[where f=concat] map_cong) auto
  also have "\<dots> = s" by (induction s) auto
  finally show ?thesis by (simp add: repr_str_def)
qed

lemma sublist_repr_plain: "repr_plain s \<Longrightarrow> sublist s (repr_str s)"
  by (simp add: repr_str_plain sublist_Cons_right sublist_append)

lemma VALID_TYPES_16: "length VALID_TYPES = 16 \<and> distinct VALID_TYPES"
  by (simp add: VALID_TYPES_def)

text \<open>
  Claim C6 (amended). The vocabulary \<^verbatim>\<open>VALID_TYPES\<close> has 16 distinct entries. For a type
  in it \<^verbatim>\<open>validate_type\<close> returns the type unchanged; for any other type string it
  raises \<^verbatim>\<open>NodeDescError\<close> whose text holds \<^verbatim>\<open>repr\<close> of the parameter name and
  \<^verbatim>\<open>repr\<close> of the type. A name or type of printable ASCII characters without
  backslash, and without both kinds of quote, stands in the text as it is.
\<close>

theorem validate_type_spec:
  "length VALID_TYPES = 16 \<and> distinct VALID_TYPES \<and>
   (t \<in> set VALID_TYPES \<longrightarrow> validate_type pname (Some t) = Inr t) \<and>
   (t \<notin> set VALID_TYPES \<longrightarrow>
      validate_type pname (Some t) =
        Inl (NodeDescError (''NodeDesc Error: param '' @ repr_str pname
                              @ '' has invalid type: '' @ repr_str t))) \<and>
   (repr_plain pname \<longrightarrow> sublist pname (repr_str pname)) \<and>
   (repr_plain t \<longrightarrow> sublist t (repr_str t))"
  using VALID_TYPES_16
  by (simp add: validate_type_def mkNodeDescError_def repr_opt_def sublist_repr_plain)

theorem validate_type_spec_witness:
  "''float'' \<in> set VALID_TYPES \<and> validate_type ''foo'' (Some ''float'') = Inr ''float'' \<and>
   ''double'' \<notin> set VALID_TYPES \<and>
   validate_type ''foo'' (Some ''double'') =
     Inl (NodeDescError (''NodeDesc Error: param '' @ [CHR 0x27] @ ''foo'' @ [CHR 0x27]
          @ '' has invalid type: '' @ [CHR 0x27] @ ''double'' @ [CHR 0x27])) \<and>
   repr_plain ''foo'' \<and> sublist ''foo'' (repr_str ''foo'') \<and>
   repr_plain ''double'' \<and> sublist ''double'' (repr_str ''double'')"
  using validate_type_spec [of "''float''" "''foo''"] validate_type_spec [of "''double''" "''foo''"]
  by (simp add: VALID_TYPES_def repr_plain_def repr_str_def repr_quote_def repr_char_def
        sublist_code(3))

text \<open>
  Claim C6 as stated fails twice: the vocabulary does not have 13 entries, and the text of
  the error for the parameter name \<^verbatim>\<open>a\b\<close> does not contain that name, since
  \<^verbatim>\<open>%r\<close> doubles the backslash.
\<close>

theorem validate_type_counterexample:
  "length VALID_TYPES \<noteq> 13 \<and>
   validate_type [CHR ''a'', CHR 0x5C, CHR ''b''] (Some ''x'') =
     Inl (NodeDescError (''NodeDesc Error: param '' @ [CHR 0x27, CHR ''a'', CHR 0x5C, CHR 0x5C, CHR ''b'', CHR 0x27]
          @ '' has invalid type: '' @ [CHR 0x27, CHR ''x'', CHR 0x27])) \<and>
   \<not> sublist [CHR ''a'', CHR 0x5C, CHR ''b'']
        (''NodeDesc Error: param '' @ [CHR 0x27, CHR ''a'', CHR 0x5C, CHR 0x5C, CHR ''b'', CHR 0x27]
          @ '' has invalid type: '' @ [CHR 0x27, CHR ''x'', CHR 0x27])"
  by (simp add: VALID_TYPES_def validate_type_def mkNodeDescError_def repr_opt_def
        repr_str_def repr_quote_def repr_char_def sublist_code(3))

section \<open>The matcher and the C-style float cleanup\<close>

lemma nullable_lang: "nullable r \<longleftrightarrow> [] \<in> lang r"
  by (induction r) (auto intro: star.intros)

lemma star_cons_iff:
  "c # w \<in> star A \<longleftrightarrow> (\<exists>u v. w = u @ v \<and> c # u \<in> A \<and> v \<in> star A)"
proof
  assume "c # w \<in> star A"
  then show "\<exists>u v. w = u @ v \<and> c # u \<in> A \<and> v \<in> star A"
  proof (induction "c # w" rule: star.induct)
    case (star_step u v)
    then show ?case by (cases u) auto
  qed
next
  assume "\<exists>u v. w = u @ v \<and> c # u \<in> A \<and> v \<in> star A"
  then obtain u v where "w = u @ v" "c # u \<in> A" "v \<in> star A" by blast
  then show "c # w \<in> star A" using star_step [of "c # u" A v] by simp
qed

lemma deriv_lang: "w \<in> lang (deriv c r) \<longleftrightarrow> c # w \<in> lang r"
proof (induction r arbitrary: w)
  case (RCat r s)
  show ?case
  proof
    assume "w \<in> lang (deriv c (RCat r s))"
    then consider (l) u v where "w = u @ v" "u \<in> lang (deriv c r)" "v \<in> lang s"
      | (r) "nullable r" "w \<in> lang (deriv c s)"
      by (auto split: if_splits)
    then show "c # w \<in> lang (RCat r s)"
    proof cases
      case l
      then have "c # u \<in> lang r" using RCat.IH(1) by simp
      with l show ?thesis
        unfolding lang.simps by (intro CollectI exI [of _ "c # u"] exI [of _ v]) simp
    next
      case r
      then have "[] \<in> lang r" "c # w \<in> lang s" using RCat.IH(2) by (simp_all add: nullable_lang)
      then show ?thesis
        unfolding lang.simps by (intro CollectI exI [of _ "[]"] exI [of _ "c # w"]) simp
    qed
  next
    assume "c # w \<in> lang (RCat r s)"
    then obtain u v where uv: "c # w = u @ v" "u \<in> lang r" "v \<in> lang s" by auto
    show "w \<in> lang (deriv c (RCat r s))"
    proof (cases u)
      case Nil
      with uv have "nullable r" "w \<in> lang (deriv c s)"
        using RCat.IH(2) by (simp_all add: nullable_lang)
      then show ?thesis by simp
    next
      case (Cons a u')
      with uv have "a = c" "w = u' @ v" "u' \<in> lang (deriv c r)" using RCat.IH(1) by simp_all
      with uv show ?thesis by auto
    qed
  qed
next
  case (RStar r)
  show ?case
  proof
    assume "w \<in> lang (deriv c (RStar r))"
    then obtain u v where "w = u @ v" "u \<in> lang (deriv c r)" "v \<in> star (lang r)" by auto
    then show "c # w \<in> lang (RStar r)" using RStar.IH by (auto simp: star_cons_iff)
  next
    assume "c # w \<in> lang (RStar r)"
    then obtain u v where "w = u @ v" "c # u \<in> lang r" "v \<in> star (lang r)"
      by (auto simp: star_cons_iff)
    then show "w \<in> lang (deriv c (RStar r))" using RStar.IH by auto
  qed
qed auto

lemma re_fullmatch_lang: "re_fullmatch r s \<longleftrightarrow> s \<in> lang r"
  by (induction s arbitrary: r) (simp_all add: nullable_lang deriv_lang)

lemma re_match_lang: "re_match r s \<longleftrightarrow> (\<exists>p q. s = p @ q \<and> p \<in> lang r)"
proof (induction s arbitrary: r)
  case Nil
  then show ?case by (simp add: nullable_lang)
next
  case (Cons c cs)
  show ?case
  proof
    assume "re_match r (c # cs)"
    then consider "[] \<in> lang r" | p q where "cs = p @ q" "p \<in> lang (deriv c r)"
      using Cons.IH by (auto simp: nullable_lang)
    then show "\<exists>p q. c # cs = p @ q \<and> p \<in> lang r"
    proof cases
      case 1
      then show ?thesis by (intro exI [of _ "[]"] exI [of _ "c # cs"]) simp
    next
      case 2
      then have "c # cs = (c # p) @ q" "c # p \<in> lang r" by (simp_all add: deriv_lang)
      then show ?thesis by blast
    qed
  next
    assume "\<exists>p q. c # cs = p @ q \<and> p \<in> lang r"
    then obtain p q where pq: "c # cs = p @ q" "p \<in> lang r" by blast
    show "re_match r (c # cs)"
    proof (cases p)
      case Nil
      with pq have "nullable r" by (simp add: nullable_lang)
      then show ?thesis by simp
    next
      case (Cons a p')
      with pq have "cs = p' @ q" "p' \<in> lang (deriv c r)" by (simp_all add: deriv_lang)
      then show ?thesis using Cons.IH by auto
    qed
  qed
qed

lemma star_chars: "w \<in> star A \<Longrightarrow> (\<forall>u \<in> A. set u \<subseteq> C) \<Longrightarrow> set w \<subseteq> C"
  by (induction rule: star.induct) auto

lemma lang_rchars: "w \<in> lang r \<Longrightarrow> set w \<subseteq> rchars r"
proof (induction r arbitrary: w)
  case (RStar r)
  then show ?case using star_chars [of w "lang r" "rchars r"] by auto
next
  case (RCat r s)
  from RCat.prems obtain u v where "w = u @ v" "u \<in> lang r" "v \<in> lang s" by auto
  with RCat.IH [of u] RCat.IH(2) [of v] show ?case by auto
qed auto

lemma CFLOAT_NUMBER_no_f: "w \<in> lang CFLOAT_NUMBER \<Longrightarrow> CHR ''f'' \<notin> set w"
proof -
  assume "w \<in> lang CFLOAT_NUMBER"
  then have "set w \<subseteq> rchars CFLOAT_NUMBER" by (rule lang_rchars)
  moreover have "CHR ''f'' \<notin> rchars CFLOAT_NUMBER"
    by (simp add: CFLOAT_NUMBER_def ropt_def rplus_def rdigit_def)
  ultimately show ?thesis by blast
qed

lemma filter_no_f: "CHR ''f'' \<notin> set w \<Longrightarrow> filter (\<lambda>c. c \<noteq> CHR ''f'') w = w"
  by (induction w) auto

text \<open>
  Claim C8 (amended). The cleanup tests whether the string begins with a number followed
  by \<^verbatim>\<open>f\<close>, and then removes every \<^verbatim>\<open>f\<close> of the string: a number followed by
  \<^verbatim>\<open>f\<close> loses that \<^verbatim>\<open>f\<close> and nothing else; a string no prefix of which is a
  number followed by \<^verbatim>\<open>f\<close> is returned unchanged; any other string loses all its
  letters \<^verbatim>\<open>f\<close>.
\<close>

theorem handle_c_style_floats_spec:
  "(w \<in> lang CFLOAT_NUMBER \<longrightarrow> handle_c_style_floats (w @ ''f'') = w) \<and>
   ((\<forall>p q. val = p @ q \<longrightarrow> p \<notin> lang CFLOAT_REGEXP) \<longrightarrow> handle_c_style_floats val = val) \<and>
   ((\<exists>p q. val = p @ q \<and> p \<in> lang CFLOAT_REGEXP) \<longrightarrow>
      handle_c_style_floats val = filter (\<lambda>c. c \<noteq> CHR ''f'') val)"
proof (intro conjI impI)
  assume w: "w \<in> lang CFLOAT_NUMBER"
  then have "w @ ''f'' \<in> lang CFLOAT_REGEXP" by (auto simp: CFLOAT_REGEXP_def)
  then have "re_match CFLOAT_REGEXP (w @ ''f'')"
    unfolding re_match_lang by (intro exI [of _ "w @ ''f''"] exI [of _ "[]"]) simp
  then show "handle_c_style_floats (w @ ''f'') = w"
    using w by (simp add: handle_c_style_floats_def filter_no_f CFLOAT_NUMBER_no_f)
next
  assume "\<forall>p q. val = p @ q \<longrightarrow> p \<notin> lang CFLOAT_REGEXP"
  then have "\<not> re_match CFLOAT_REGEXP val" by (auto simp: re_match_lang)
  then show "handle_c_style_floats val = val" by (simp add: handle_c_style_floats_def)
next
  assume "\<exists>p q. val = p @ q \<and> p \<in> lang CFLOAT_REGEXP"
  then have "re_match CFLOAT_REGEXP val" by (simp add: re_match_lang)
  then show "handle_c_style_floats val = filter (\<lambda>c. c \<noteq> CHR ''f'') val"
    by (simp add: handle_c_style_floats_def)
qed

lemma CFLOAT_NUMBER_example: "''0.001'' \<in> lang CFLOAT_NUMBER"
  unfolding re_fullmatch_lang [symmetric]
  by (simp add: CFLOAT_NUMBER_def ropt_def rplus_def rdigit_def)

lemma CFLOAT_REGEXP_no_prefix: "\<forall>p q. ''default'' = p @ q \<longrightarrow> p \<notin> lang CFLOAT_REGEXP"
proof -
  have "\<not> re_match CFLOAT_REGEXP ''default''"
    by (simp add: CFLOAT_REGEXP_def CFLOAT_NUMBER_def ropt_def rplus_def rdigit_def)
  then show ?thesis unfolding re_match_lang by blast
qed

lemma CFLOAT_REGEXP_prefix: "\<exists>p q. ''0.5f 0.5f'' = p @ q \<and> p \<in> lang CFLOAT_REGEXP"
proof -
  have "re_match CFLOAT_REGEXP ''0.5f 0.5f''"
    by (simp add: CFLOAT_REGEXP_def CFLOAT_NUMBER_def ropt_def rplus_def rdigit_def)
  then show ?thesis by (simp add: re_match_lang)
qed

theorem handle_c_style_floats_spec_witness:
  "''0.001'' \<in> lang CFLOAT_NUMBER \<and> handle_c_style_floats ''0.001f'' = ''0.001'' \<and>
   \<not> re_match CFLOAT_REGEXP ''default'' \<and>
   handle_c_style_floats ''default'' = ''default'' \<and>
   (\<exists>p q. ''0.5f 0.5f'' = p @ q \<and> p \<in> lang CFLOAT_REGEXP) \<and>
   handle_c_style_floats ''0.5f 0.5f'' = ''0.5 0.5''"
proof -
  have a: "''0.001'' \<in> lang CFLOAT_NUMBER" by (rule CFLOAT_NUMBER_example)
  have b: "\<not> re_match CFLOAT_REGEXP ''default''"
    using CFLOAT_REGEXP_no_prefix unfolding re_match_lang by blast
  have c: "\<exists>p q. ''0.5f 0.5f'' = p @ q \<and> p \<in> lang CFLOAT_REGEXP"
    by (rule CFLOAT_REGEXP_prefix)
  have 1: "handle_c_style_floats ''0.001f'' = ''0.001''"
    using handle_c_style_floats_spec [of "''0.001''" "''default''"] a by simp
  have 2: "handle_c_style_floats ''default'' = ''default''"
    using handle_c_style_floats_spec [of "''0.001''" "''default''"] CFLOAT_REGEXP_no_prefix
    by blast
  have 3: "handle_c_style_floats ''0.5f 0.5f'' = ''0.5 0.5''"
    using handle_c_style_floats_spec [of "''0.001''" "''0.5f 0.5f''"] c by simp
  show ?thesis using a b c 1 2 3 by simp
qed

text \<open>
  Claim C8 as stated fails: \<^verbatim>\<open>0.5f 0.5f\<close>, the default of a two-component parameter,
  is not a number followed by \<^verbatim>\<open>f\<close>, and it is not returned unchanged.
\<close>

theorem handle_c_style_floats_counterexample:
  "\<not> re_fullmatch CFLOAT_REGEXP ''0.5f 0.5f'' \<and>
   handle_c_style_floats ''0.5f 0.5f'' = ''0.5 0.5'' \<and>
   handle_c_style_floats ''0.5f 0.5f'' \<noteq> ''0.5f 0.5f''"
  by (simp add: handle_c_style_floats_def CFLOAT_REGEXP_def CFLOAT_NUMBER_def ropt_def
        rplus_def rdigit_def)

section \<open>Properties of the parameter constructors\<close>


lemmas param_defs =
  NodeDescParamXML_def NodeDescParam_init_def set_type_def set_optional_attributes_def
  set_size_def set_default_def set_widget_def set_page_def set_help_def format_help_def
  set_conditional_vis_ops_def set_one_vis_op_def set_one_optional_def set_vstruct_def
  widget_check_def finalize_def finalize_default_def finalize_sliders_def
  finalize_condvis_def default_value_get_def DEFAULT_VALUE_def py_max_float_def
  py_min_float_def call_method_def getattr_def hasattr_def setattr_def attr_key_def
  getattr_default_def hasAttribute_def getAttribute_def getElementsByTagName_def
  ebind_def validate_type_def VALID_TYPES_def optional_attrs_def FLOAT3_def py_in_def
  py_eq_def safe_value_eval_any_def func_value_def PAGE_SEP_def

lemma vis_names:
  "match_RE_VISOP ''name'' = False" "match_RE_VISOP ''type'' = False"
  "match_RE_VISOP ''min'' = False" "match_RE_VISOP ''slider'' = False"
  "match_RE_VISOP ''isDynamicArray'' = False" "match_RE_VISOP ''label'' = False"
  "match_RE_VISOP ''arraySize'' = False" "match_RE_VISOP ''default'' = False"
  by code_simp+

lemma cfloat_small:
  "handle_c_style_floats ''0'' = ''0''" "handle_c_style_floats ''1'' = ''1''"
  "handle_c_style_floats ''Foo'' = ''Foo''" "handle_c_style_floats ''a'' = ''a''"
  by code_simp+

subsection \<open>\<^verbatim>\<open>_set_size\<close>\<close>

text \<open>
  What \<^verbatim>\<open>_set_size\<close> does in each case of its attributes. In the last case, a
  \<^verbatim>\<open>isDynamicArray\<close> that is \<^verbatim>\<open>"0"\<close> without \<^verbatim>\<open>arraySize\<close>, no branch assigns: the
  object is returned as it came.
\<close>

lemma set_size_cases:
  assumes "set_size B pdata obj = Inr obj'"
  shows "(hasAttribute (xattributes pdata) ''isDynamicArray'' \<and>
            getAttribute (xattributes pdata) ''isDynamicArray'' \<noteq> ''0''
          \<longrightarrow> obj' = setattr obj ''size'' (PyInt (- 1)))
       \<and> ((hasAttribute (xattributes pdata) ''isDynamicArray'' \<longrightarrow>
             getAttribute (xattributes pdata) ''isDynamicArray'' = ''0'') \<and>
            hasAttribute (xattributes pdata) ''arraySize''
          \<longrightarrow> (\<exists>n. py_int B (PyStr (getAttribute (xattributes pdata) ''arraySize'')) = Inr n \<and>
                   obj' = setattr obj ''size'' (PyInt n)))
       \<and> (\<not> hasAttribute (xattributes pdata) ''isDynamicArray'' \<and>
            \<not> hasAttribute (xattributes pdata) ''arraySize''
          \<longrightarrow> obj' = setattr obj ''size'' PyNone)
       \<and> (hasAttribute (xattributes pdata) ''isDynamicArray'' \<and>
            getAttribute (xattributes pdata) ''isDynamicArray'' = ''0'' \<and>
            \<not> hasAttribute (xattributes pdata) ''arraySize''
          \<longrightarrow> obj' = obj)"
  using assms by (auto simp: set_size_def Let_def ebind_def split: if_splits sum.splits)

text \<open>
  Claim C4. The claim, and the docstring of \<^verbatim>\<open>_set_size\<close>, say that an element with
  \<^verbatim>\<open>isDynamicArray="0"\<close> and no \<^verbatim>\<open>arraySize\<close> is a scalar of size \<^verbatim>\<open>None\<close>. The code
  constructs the parameter and leaves it without a \<^verbatim>\<open>size\<close> attribute at all: reading
  \<^verbatim>\<open>size\<close>, as \<^verbatim>\<open>is_array\<close> does, raises \<^verbatim>\<open>AttributeError\<close>.
\<close>

theorem set_size_dynamic_zero_unset:
  "(case NodeDescParamXML B bcf dynamic_zero_param of
      Inr obj \<Rightarrow> getattr obj ''size'' = Inl AttributeError \<and> \<not> hasattr obj ''size''
    | Inl e \<Rightarrow> False)"
  by (simp add: dynamic_zero_param_def param_defs vis_names)

text \<open>
  With a type of \<^verbatim>\<open>FLOAT3\<close> and any optional attribute, the constructor itself reads the
  missing \<^verbatim>\<open>size\<close> and fails.
\<close>

lemma set_size_dynamic_zero_color:
  "NodeDescParamXML B bcf dynamic_zero_color_param = Inl AttributeError"
  by (simp add: dynamic_zero_color_param_def param_defs vis_names cfloat_small)

subsection \<open>\<^verbatim>\<open>finalize\<close>: the soft bounds\<close>



section \<open>Properties of the node description\<close>

text \<open>
  Claim C9. \<^verbatim>\<open>clear_parsed_data\<close> sets the retained parse data to \<^verbatim>\<open>None\<close> and leaves
  every other field of the node description as it was.
\<close>

theorem clear_parsed_data_frame:
  "parsed_data (clear_parsed_data nd) = None \<and>
   node_name (clear_parsed_data nd) = node_name nd \<and>
   node_type (clear_parsed_data nd) = node_type nd \<and>
   rman_node_type (clear_parsed_data nd) = rman_node_type nd \<and>
   node_help (clear_parsed_data nd) = node_help nd \<and>
   params (clear_parsed_data nd) = params nd \<and>
   outputs (clear_parsed_data nd) = outputs nd \<and>
   attributes (clear_parsed_data nd) = attributes nd \<and>
   param_dict (clear_parsed_data nd) = param_dict nd \<and>
   attribute_dict (clear_parsed_data nd) = attribute_dict nd \<and>
   output_dict (clear_parsed_data nd) = output_dict nd \<and>
   textured_params (clear_parsed_data nd) = textured_params nd \<and>
   pages_condvis_dict (clear_parsed_data nd) = pages_condvis_dict nd \<and>
   pages_trigger_params (clear_parsed_data nd) = pages_trigger_params nd \<and>
   ui_structs (clear_parsed_data nd) = ui_structs nd \<and>
   ui_struct_membership (clear_parsed_data nd) = ui_struct_membership nd \<and>
   build_condvis_func (clear_parsed_data nd) = build_condvis_func nd \<and>
   parsed_data_type (clear_parsed_data nd) = parsed_data_type nd"
  by (simp add: clear_parsed_data_def)

subsection \<open>The passes after the parse\<close>

lemma ebind_Inr_iff: "ebind m f = Inr y \<longleftrightarrow> (\<exists>x. m = Inr x \<and> f x = Inr y)"
  by (cases m) (simp_all add: ebind_def)

lemma map_of_alist_update:
  "map_of (alist_update k v al) k' = (if k' = k then Some v else map_of al k')"
  by (induction al) auto

lemma getattr_setattr:
  "getattr (setattr obj n v) m = (if attr_key m = attr_key n then Inr v else getattr obj m)"
  by (simp add: getattr_def setattr_def map_of_alist_update)

text \<open>Tagging a parameter as a trigger changes \<^verbatim>\<open>conditionalVisTrigger\<close> only.\<close>

lemma tag_trigger_getattr:
  assumes "tag_trigger l prm = Inr prm'" and "attr_key m \<noteq> ''conditionalVisTrigger''"
  shows "getattr prm' m = getattr prm m"
  using assms
  by (auto simp: tag_trigger_def ebind_Inr_iff call_method_def getattr_setattr attr_key_def
           split: if_splits)

lemma tag_trigger_is_notes:
  assumes "tag_trigger l prm = Inr prm'"
  shows "is_notes prm' = is_notes prm"
proof -
  have a: "getattr prm' ''name'' = getattr prm ''name''"
    using tag_trigger_getattr [OF assms, of "''name''"] by (simp add: attr_key_def)
  have b: "getattr prm' ''type'' = getattr prm ''type''"
    using tag_trigger_getattr [OF assms, of "''type''"] by (simp add: attr_key_def)
  show ?thesis unfolding is_notes_def a b ..
qed

lemma tag_trigger_names:
  assumes "tag_trigger l prm = Inr prm'"
  shows "trigger_names prm' = trigger_names prm"
proof -
  have a: "getattr prm' ''trigger_params'' = getattr prm ''trigger_params''"
    using tag_trigger_getattr [OF assms, of "''trigger_params''"] by (simp add: attr_key_def)
  show ?thesis unfolding trigger_names_def a ..
qed

lemma emap_tag_trigger:
  "emap (tag_trigger l) prms = Inr prms' \<Longrightarrow>
     map is_notes prms' = map is_notes prms \<and> map trigger_names prms' = map trigger_names prms"
proof (induction prms arbitrary: prms')
  case Nil
  then show ?case by simp
next
  case (Cons prm prms)
  from Cons.prems obtain p' ps' where p: "tag_trigger l prm = Inr p'"
    and ps: "emap (tag_trigger l) prms = Inr ps'" and eq: "prms' = p' # ps'"
    by (auto simp: ebind_Inr_iff)
  with Cons.IH [OF ps] show ?case
    by (simp add: tag_trigger_is_notes tag_trigger_names)
qed

lemma count_notes_map: "map is_notes prms' = map is_notes prms \<Longrightarrow> count_notes prms' = count_notes prms"
proof -
  assume a: "map is_notes prms' = map is_notes prms"
  have eq: "\<And>ps. count_notes ps = length (filter (\<lambda>r. r = Inr True) (map is_notes ps))"
    by (simp add: count_notes_def filter_map comp_def)
  show ?thesis by (simp only: eq a)
qed

text \<open>The cleanup removes the first parameter named \<^verbatim>\<open>notes\<close> of type \<^verbatim>\<open>string\<close>.\<close>

lemma weed_notes_count:
  "weed_notes prms = Inr prms' \<Longrightarrow> count_notes prms' = count_notes prms - 1"
proof (induction prms arbitrary: prms')
  case Nil
  then show ?case by (simp add: count_notes_def)
next
  case (Cons prm prms)
  from Cons.prems obtain b where b: "is_notes prm = Inr b"
    and r: "(if b then Inr prms else ebind (weed_notes prms) (\<lambda>r. Inr (prm # r))) = Inr prms'"
    by (auto simp: ebind_Inr_iff)
  show ?case
  proof (cases b)
    case True
    with b r show ?thesis by (simp add: count_notes_def)
  next
    case False
    with r obtain ps where ps: "weed_notes prms = Inr ps" and eq: "prms' = prm # ps"
      by (auto simp: ebind_Inr_iff)
    from Cons.IH [OF ps] b False eq show ?thesis by (simp add: count_notes_def)
  qed
qed

text \<open>The struct indices are the only fields \<open>add_ui_struct\<close> changes.\<close>

lemma add_ui_struct_frame:
  assumes "add_ui_struct prm nd = Inr nd'"
  shows "params nd' = params nd \<and> outputs nd' = outputs nd \<and> attributes nd' = attributes nd
       \<and> pages_trigger_params nd' = pages_trigger_params nd"
proof (cases "\<exists>h. getattr prm ''has_ui_struct'' = Inr h \<and> py_truth h")
  case False
  with assms have "nd' = nd"
    by (auto simp: add_ui_struct_def ebind_Inr_iff split: if_splits)
  then show ?thesis by simp
next
  case True
  with assms obtain sn known n us
    where body: "(case dict_lookup us sn of
                    Some (PyList ms) \<Rightarrow>
                      ebind (dict_setitem (ui_struct_membership nd) n sn) (\<lambda>mem.
                        Inr (nd\<lparr> ui_structs := dict_update sn (PyList (ms @ [n])) us,
                                  ui_struct_membership := mem \<rparr>))
                  | _ \<Rightarrow> Inl Unmodelled) = Inr nd'"
    by (auto simp: add_ui_struct_def ebind_Inr_iff Let_def split: if_splits)
  then obtain ms mem where "nd' = nd\<lparr> ui_structs := dict_update sn (PyList (ms @ [n])) us,
                                       ui_struct_membership := mem \<rparr>"
    by (cases "dict_lookup us sn") (auto simp: ebind_Inr_iff split: pyvalue.splits)
  then show ?thesis by simp
qed

text \<open>
  The collection pass: the variable stays on the list of the node, which grows by the
  names of each parameter in turn.
\<close>

lemma collect_one_effect:
  assumes "collect_one prm (nd, SelfPagesTriggerParams) = Inr (nd', r)"
  shows "r = SelfPagesTriggerParams \<and> params nd' = params nd \<and> outputs nd' = outputs nd
       \<and> attributes nd' = attributes nd
       \<and> (\<exists>names. trigger_names prm = Inr names
             \<and> pages_trigger_params nd' = pages_trigger_params nd @ names)"
proof -
  from assms obtain tp names nd1
    where tp: "getattr prm ''trigger_params'' = Inr tp" and names: "py_iter tp = Inr names"
      and nd1: "add_ui_struct prm (nd\<lparr> pages_trigger_params := pages_trigger_params nd @ names \<rparr>) = Inr nd1"
      and res: "nd' = nd1" "r = SelfPagesTriggerParams"
    by (auto simp: collect_one_def call_method_def ebind_Inr_iff list_iadd_def Let_def
             split: if_splits)
  from add_ui_struct_frame [OF nd1] tp names res show ?thesis
    by (simp add: trigger_names_def ebind_def)
qed

lemma collect_all_effect:
  "efold collect_one prms (nd, SelfPagesTriggerParams) = Inr (nd', r) \<Longrightarrow>
     r = SelfPagesTriggerParams \<and> params nd' = params nd \<and> outputs nd' = outputs nd
     \<and> attributes nd' = attributes nd
     \<and> (\<exists>names. emap trigger_names prms = Inr names
           \<and> pages_trigger_params nd' = pages_trigger_params nd @ concat names)"
proof (induction prms arbitrary: nd)
  case Nil
  then show ?case by simp
next
  case (Cons prm prms)
  from Cons.prems obtain st where st: "collect_one prm (nd, SelfPagesTriggerParams) = Inr st"
    and rest: "efold collect_one prms st = Inr (nd', r)"
    by (auto simp: ebind_Inr_iff)
  obtain nd1 r1 where st_eq: "st = (nd1, r1)" by (cases st)
  from collect_one_effect [OF st [unfolded st_eq]]
  obtain ns where r1: "r1 = SelfPagesTriggerParams" and f1: "params nd1 = params nd"
    "outputs nd1 = outputs nd" "attributes nd1 = attributes nd"
    and ns: "trigger_names prm = Inr ns"
    "pages_trigger_params nd1 = pages_trigger_params nd @ ns"
    by blast
  from Cons.IH [OF rest [unfolded st_eq r1]]
  obtain nss where r: "r = SelfPagesTriggerParams" and f2: "params nd' = params nd1"
    "outputs nd' = outputs nd1" "attributes nd' = attributes nd1"
    and nss: "emap trigger_names prms = Inr nss"
    "pages_trigger_params nd' = pages_trigger_params nd1 @ concat nss"
    by blast
  from r f1 f2 ns nss show ?case by (simp add: ebind_def)
qed

lemma emap_cong_map: "map f xs = map f ys \<Longrightarrow> emap f xs = emap f ys"
proof (induction xs arbitrary: ys)
  case Nil
  then show ?case by simp
next
  case (Cons x xs)
  then obtain y ys' where "ys = y # ys'" "f x = f y" "map f xs = map f ys'" by (cases ys) auto
  with Cons.IH [of ys'] show ?case by simp
qed

text \<open>What \<open>post_parse\<close> does to the collections and to the list of trigger names.\<close>

lemma post_parse_effect:
  assumes "post_parse nd = Inr nd'"
  shows "outputs nd' = outputs nd \<and> attributes nd' = attributes nd
       \<and> count_notes (params nd') = count_notes (params nd) - 1
       \<and> (\<exists>names. emap trigger_names (params nd') = Inr names
             \<and> pages_trigger_params nd' = pages_trigger_params nd @ concat names)"
proof -
  from assms obtain ps st own ps'
    where ps: "weed_notes (params nd) = Inr ps"
      and st: "efold collect_one ps (nd\<lparr> params := ps \<rparr>, SelfPagesTriggerParams) = Inr st"
      and own: "list_of_set (deref (fst st) (snd st)) = Inr own"
      and ps': "emap (tag_trigger own) (params (fst st)) = Inr ps'"
      and res: "nd' = (fst st)\<lparr> params := ps' \<rparr>"
    by (auto simp: post_parse_def ebind_Inr_iff Let_def deref_def)
  obtain nd1 r where st_eq: "st = (nd1, r)" by (cases st)
  from collect_all_effect [OF st [unfolded st_eq]]
  obtain names where f: "params nd1 = ps" "outputs nd1 = outputs nd"
    "attributes nd1 = attributes nd"
    and names: "emap trigger_names ps = Inr names"
    "pages_trigger_params nd1 = pages_trigger_params nd @ concat names"
    by auto
  from ps' st_eq f have tag: "emap (tag_trigger own) ps = Inr ps'" by simp
  from emap_tag_trigger [OF tag]
  have m: "map is_notes ps' = map is_notes ps" "map trigger_names ps' = map trigger_names ps"
    by simp_all
  have "count_notes ps' = count_notes (params nd) - 1"
    using count_notes_map [OF m(1)] weed_notes_count [OF ps] by simp
  moreover have "emap trigger_names ps' = Inr names"
    using emap_cong_map [OF m(2)] names(1) by simp
  ultimately show ?thesis using res st_eq f names by simp
qed




text \<open>
  Claim C10. After construction, \<open>pages_trigger_params\<close> is the list as the parse left
  it (the page-level names the visibility builder produced) followed by the names of the
  \<^verbatim>\<open>trigger_params\<close> of every parameter of \<open>params\<close>, in order: it contains the
  page-level names and every name of every input parameter.
\<close>

theorem pages_trigger_params_extended:
  assumes "NodeDesc_new B presets bcf filepath content = Inr nd'"
  shows "\<exists>nd names. parse_format B presets filepath content (NodeDesc_init bcf) = Inr nd
           \<and> emap trigger_names (params nd') = Inr names
           \<and> pages_trigger_params nd' = pages_trigger_params nd @ concat names
           \<and> set (pages_trigger_params nd) \<subseteq> set (pages_trigger_params nd')
           \<and> (\<forall>ns \<in> set names. set ns \<subseteq> set (pages_trigger_params nd'))"
proof -
  from assms obtain nd where nd: "parse_format B presets filepath content (NodeDesc_init bcf) = Inr nd"
    and post: "post_parse nd = Inr nd'"
    by (auto simp: NodeDesc_new_def parse_node_def ebind_Inr_iff)
  from post_parse_effect [OF post]
  obtain names where n: "emap trigger_names (params nd') = Inr names"
    "pages_trigger_params nd' = pages_trigger_params nd @ concat names"
    by blast
  then have "set (pages_trigger_params nd) \<subseteq> set (pages_trigger_params nd')"
    "\<forall>ns \<in> set names. set ns \<subseteq> set (pages_trigger_params nd')"
    by auto
  with nd n show ?thesis by blast
qed

theorem pages_trigger_params_extended_witness:
  "(case NodeDesc_new example_builtins [] (Some example_condvis) notes_file (XmlDoc notes_doc) of
      Inr nd' \<Rightarrow>
        (case parse_format example_builtins [] notes_file (XmlDoc notes_doc)
                (NodeDesc_init (Some example_condvis)) of
           Inr nd \<Rightarrow> pages_trigger_params nd = [PyStr ''mode''] \<and>
                     emap trigger_names (params nd') = Inr [[], [PyStr ''enable'']] \<and>
                     pages_trigger_params nd' = [PyStr ''mode'', PyStr ''enable'']
         | Inl e \<Rightarrow> False)
    | Inl e \<Rightarrow> False)"
proof -
  have a: "(case NodeDesc_new example_builtins [] (Some example_condvis) notes_file (XmlDoc notes_doc) of
              Inr nd' \<Rightarrow> emap trigger_names (params nd') = Inr [[], [PyStr ''enable'']]
            | Inl e \<Rightarrow> False)"
    by code_simp
  then obtain nd' where nd': "NodeDesc_new example_builtins [] (Some example_condvis) notes_file (XmlDoc notes_doc) = Inr nd'"
    and e: "emap trigger_names (params nd') = Inr [[], [PyStr ''enable'']]"
    by (auto split: sum.splits)
  from pages_trigger_params_extended [OF nd']
  obtain nd names where nd: "parse_format example_builtins [] notes_file (XmlDoc notes_doc)
        (NodeDesc_init (Some example_condvis)) = Inr nd"
    and f: "emap trigger_names (params nd') = Inr names"
      "pages_trigger_params nd' = pages_trigger_params nd @ concat names"
    by blast
  have "(case parse_format example_builtins [] notes_file (XmlDoc notes_doc)
                (NodeDesc_init (Some example_condvis)) of
           Inr nd \<Rightarrow> pages_trigger_params nd = [PyStr ''mode''] | Inl e \<Rightarrow> False)"
    by code_simp
  with nd have "pages_trigger_params nd = [PyStr ''mode'']" by simp
  with nd nd' e f show ?thesis by simp
qed

end
